theory Spec2Isabelle
  imports Complex_Main
begin

section \<open>Geometry values\<close>

text \<open>
  A model of the object selection tool of the map editor,
  \<open>src/tiled/objectselectiontool.cpp\<close>: the geometry helpers, the handle set, the
  snapshot of the selection, the move, rotate and resize gestures with their undo
  macros, the rollback on deletion, and the dispatch on pointer movement and release.
  Painting, key presses and the hit test of a pointer press are left out.

  The tool computes with Qt's \<open>qreal\<close> coordinates. They are modelled as mathematical
  reals: rounding, infinities, NaN and signed zeros are outside this model. A quotient
  whose divisor is zero has no real value, so every division of the source goes through
  \<open>qdiv\<close>, which returns \<open>None\<close> there. The two computations whose result is claimed to
  be exact, the round trip of \<open>align\<close> and \<open>unalign\<close> and the conversion of the snapped
  angle to degrees, are modelled once more on doubles, with every operation rounded.
\<close>

type_synonym qreal = real

type_synonym QPointF = "qreal \<times> qreal"

type_synonym QSizeF = "qreal \<times> qreal"

definition padd :: "QPointF \<Rightarrow> QPointF \<Rightarrow> QPointF" where
  "padd p q = (fst p + fst q, snd p + snd q)"

definition psub :: "QPointF \<Rightarrow> QPointF \<Rightarrow> QPointF" where
  "psub p q = (fst p - fst q, snd p - snd q)"

definition pneg :: "QPointF \<Rightarrow> QPointF" where
  "pneg p = (- fst p, - snd p)"

definition qdiv :: "qreal \<Rightarrow> qreal \<Rightarrow> qreal option" where
  "qdiv a b = (if b = 0 then None else Some (a / b))"

text \<open>\<open>qMax(a, b)\<close> is \<open>(a < b) ? b : a\<close> and \<open>qMin(a, b)\<close> is \<open>(a < b) ? a : b\<close>.\<close>

definition qMax :: "qreal \<Rightarrow> qreal \<Rightarrow> qreal" where
  "qMax a b = (if a < b then b else a)"

definition qMin :: "qreal \<Rightarrow> qreal \<Rightarrow> qreal" where
  "qMin a b = (if a < b then a else b)"

text \<open>A \<open>QRectF\<close> stores its top-left corner and its extent.\<close>

record QRectF =
  rx :: qreal
  ry :: qreal
  rw :: qreal
  rh :: qreal

definition mkRect :: "QPointF \<Rightarrow> QSizeF \<Rightarrow> QRectF" where
  "mkRect p s = \<lparr>rx = fst p, ry = snd p, rw = fst s, rh = snd s\<rparr>"

definition translate :: "QRectF \<Rightarrow> QPointF \<Rightarrow> QRectF" where
  "translate r p = r\<lparr>rx := rx r + fst p, ry := ry r + snd p\<rparr>"

definition topLeft :: "QRectF \<Rightarrow> QPointF" where
  "topLeft r = (rx r, ry r)"

definition rsize :: "QRectF \<Rightarrow> QSizeF" where
  "rsize r = (rw r, rh r)"

text \<open>
  \<open>setLeft\<close> and \<open>setTop\<close> move one edge and keep the opposite one; \<open>setRight\<close> and
  \<open>setBottom\<close> keep the top-left corner and change the extent.
\<close>

definition setLeft :: "QRectF \<Rightarrow> qreal \<Rightarrow> QRectF" where
  "setLeft r v = r\<lparr>rw := rw r - (v - rx r), rx := v\<rparr>"

definition setRight :: "QRectF \<Rightarrow> qreal \<Rightarrow> QRectF" where
  "setRight r v = r\<lparr>rw := v - rx r\<rparr>"

definition setTop :: "QRectF \<Rightarrow> qreal \<Rightarrow> QRectF" where
  "setTop r v = r\<lparr>rh := rh r - (v - ry r), ry := v\<rparr>"

definition setBottom :: "QRectF \<Rightarrow> qreal \<Rightarrow> QRectF" where
  "setBottom r v = r\<lparr>rh := v - ry r\<rparr>"

section \<open>Alignment\<close>

datatype Alignment =
  TopLeft | Top | TopRight | Left | Center | Right | BottomLeft | Bottom | BottomRight

fun alignmentOffset :: "QRectF \<Rightarrow> Alignment \<Rightarrow> QPointF" where
  "alignmentOffset r TopLeft = (0, 0)"
| "alignmentOffset r Top = (rw r / 2, 0)"
| "alignmentOffset r TopRight = (rw r, 0)"
| "alignmentOffset r Left = (0, rh r / 2)"
| "alignmentOffset r Center = (rw r / 2, rh r / 2)"
| "alignmentOffset r Right = (rw r, rh r / 2)"
| "alignmentOffset r BottomLeft = (0, rh r)"
| "alignmentOffset r Bottom = (rw r / 2, rh r)"
| "alignmentOffset r BottomRight = (rw r, rh r)"

text \<open>
  \<open>align\<close> and \<open>unalign\<close> in exact arithmetic; \<open>alignDouble\<close> and \<open>unalignDouble\<close> below
  are the same two functions with the sums rounded to doubles.
\<close>

definition align :: "QRectF \<Rightarrow> Alignment \<Rightarrow> QRectF" where
  "align r a = translate r (pneg (alignmentOffset r a))"

definition unalign :: "QRectF \<Rightarrow> Alignment \<Rightarrow> QRectF" where
  "unalign r a = translate r (alignmentOffset r a)"

section \<open>Qt values used by the tool\<close>

definition topRight :: "QRectF \<Rightarrow> QPointF" where
  "topRight r = (rx r + rw r, ry r)"

definition bottomLeft :: "QRectF \<Rightarrow> QPointF" where
  "bottomLeft r = (rx r, ry r + rh r)"

definition bottomRight :: "QRectF \<Rightarrow> QPointF" where
  "bottomRight r = (rx r + rw r, ry r + rh r)"

definition center :: "QRectF \<Rightarrow> QPointF" where
  "center r = (rx r + rw r / 2, ry r + rh r / 2)"

definition midpoint :: "QPointF \<Rightarrow> QPointF \<Rightarrow> QPointF" where
  "midpoint p q = ((fst p + fst q) / 2, (snd p + snd q) / 2)"

definition nullRect :: QRectF where
  "nullRect = \<lparr>rx = 0, ry = 0, rw = 0, rh = 0\<rparr>"

definition isNull :: "QRectF \<Rightarrow> bool" where
  "isNull r = (rw r = 0 \<and> rh r = 0)"

text \<open>\<open>QRectF::normalized\<close>: a negative extent is flipped to the other side.\<close>

definition normalized :: "QRectF \<Rightarrow> QRectF" where
  "normalized r =
     (let r1 = (if rw r < 0 then r\<lparr>rx := rx r + rw r, rw := - rw r\<rparr> else r)
      in if rh r1 < 0 then r1\<lparr>ry := ry r1 + rh r1, rh := - rh r1\<rparr> else r1)"

text \<open>\<open>QRectF(topLeft, bottomRight)\<close>.\<close>

definition rectOfCorners :: "QPointF \<Rightarrow> QPointF \<Rightarrow> QRectF" where
  "rectOfCorners p q = \<lparr>rx = fst p, ry = snd p, rw = fst q - fst p, rh = snd q - snd p\<rparr>"

text \<open>\<open>QRectF::operator|\<close>: the bounding rectangle of two rectangles; a null one is ignored.\<close>

definition united :: "QRectF \<Rightarrow> QRectF \<Rightarrow> QRectF" where
  "united a b =
     (if isNull a then b
      else if isNull b then a
      else
        let na = normalized a; nb = normalized b;
            l = qMin (rx na) (rx nb); t = qMin (ry na) (ry nb);
            r = qMax (rx na + rw na) (rx nb + rw nb);
            bt = qMax (ry na + rh na) (ry nb + rh nb)
        in \<lparr>rx = l, ry = t, rw = r - l, rh = bt - t\<rparr>)"

text \<open>\<open>QPolygonF::boundingRect\<close>, \<open>QPolygonF::translated\<close> and the polygon of a rectangle.\<close>

fun boundingRect :: "QPointF list \<Rightarrow> QRectF" where
  "boundingRect [] = nullRect"
| "boundingRect (p # ps) =
     (let xs = map fst (p # ps); ys = map snd (p # ps);
          minx = fold min xs (fst p); maxx = fold max xs (fst p);
          miny = fold min ys (snd p); maxy = fold max ys (snd p)
      in \<lparr>rx = minx, ry = miny, rw = maxx - minx, rh = maxy - miny\<rparr>)"

definition translated :: "QPointF list \<Rightarrow> QPointF \<Rightarrow> QPointF list" where
  "translated ps d = map (\<lambda>p. padd p d) ps"

definition rectPolygon :: "QRectF \<Rightarrow> QPointF list" where
  "rectPolygon r = [topLeft r, topRight r, bottomRight r, bottomLeft r]"

text \<open>
  The only transforms the tool builds are the identity \<open>QTransform()\<close> and \<open>rotateAt\<close>:
  translate to the point, rotate by an angle in degrees, translate back. Mapping a point
  \<open>q\<close> through \<open>rotateAt p a\<close> gives \<open>p + R (q - p)\<close>, where \<open>R (x, y)\<close> is
  \<open>(x cos a - y sin a, x sin a + y cos a)\<close>.
\<close>

datatype QTransform = IdentityTransform | RotateAt QPointF qreal

definition rotateAt :: "QPointF \<Rightarrow> qreal \<Rightarrow> QTransform" where
  "rotateAt p a = RotateAt p a"

definition rotatePoint :: "qreal \<Rightarrow> QPointF \<Rightarrow> QPointF" where
  "rotatePoint rad p = (fst p * cos rad - snd p * sin rad, fst p * sin rad + snd p * cos rad)"

fun mapPoint :: "QTransform \<Rightarrow> QPointF \<Rightarrow> QPointF" where
  "mapPoint IdentityTransform q = q"
| "mapPoint (RotateAt p a) q = padd p (rotatePoint (a * pi / 180) (psub q p))"

definition mapPolygon :: "QTransform \<Rightarrow> QPointF list \<Rightarrow> QPointF list" where
  "mapPolygon t ps = map (mapPoint t) ps"

fun mapRect :: "QTransform \<Rightarrow> QRectF \<Rightarrow> QRectF" where
  "mapRect IdentityTransform r = r"
| "mapRect (RotateAt p a) r = boundingRect (mapPolygon (RotateAt p a) (rectPolygon r))"

text \<open>\<open>std::atan2\<close> on reals; \<open>atan2 0 0\<close> is \<open>0\<close>.\<close>

definition atan2 :: "qreal \<Rightarrow> qreal \<Rightarrow> qreal" where
  "atan2 y x =
     (if 0 < x then arctan (y / x)
      else if x < 0 then (if 0 \<le> y then arctan (y / x) + pi else arctan (y / x) - pi)
      else if 0 < y then pi / 2
      else if y < 0 then - (pi / 2)
      else 0)"

section \<open>Map objects, scene items and handles\<close>

datatype AnchorPosition =
  TopLeftAnchor | TopRightAnchor | BottomLeftAnchor | BottomRightAnchor
  | TopAnchor | LeftAnchor | RightAnchor | BottomAnchor

datatype Shape = Rectangle | Polygon | Polyline | Ellipse

datatype Action = NoAction | Selecting | Moving | Rotating | Resizing

datatype Mode = Resize | Rotate

record Modifiers =
  shiftModifier :: bool
  controlModifier :: bool
  altModifier :: bool

definition noModifier :: Modifiers where
  "noModifier = \<lparr>shiftModifier = False, controlModifier = False, altModifier = False\<rparr>"

text \<open>The tile of a tile object: the size of its image and the tile offset of its tileset.\<close>

record Cell =
  imgWidth :: int
  imgHeight :: int
  tileOffsetX :: int
  tileOffsetY :: int

text \<open>
  A map object. \<open>cell\<close> is \<open>None\<close> when \<open>cell().isEmpty()\<close>; \<open>topDownOrder\<close> says whether
  the draw order of the object's group is \<open>ObjectGroup::TopDownOrder\<close>.
\<close>

record MapObject =
  position :: QPointF
  sizeF :: QSizeF
  shape :: Shape
  polygon :: "QPointF list"
  rotation :: qreal
  alignment :: Alignment
  cell :: "Cell option"
  topDownOrder :: bool

text \<open>
  A scene item shows exactly one map object, so the item and its object live in one
  record, found in the store under the item's identity. \<open>pos\<close>, \<open>itemRotation\<close> and
  \<open>zValue\<close> are the attributes of the graphics item.
\<close>

record MapObjectItem =
  mapObject :: MapObject
  pos :: QPointF
  itemRotation :: qreal
  zValue :: qreal

text \<open>
  Modelled from the spec: \<open>MapObjectItem::resizeObject\<close> and
  \<open>MapObjectItem::setObjectRotation\<close> are declared outside the source file. The first sets the
  size of the object, the second the rotation of the object and of its item. The setters
  of \<open>MapObject\<close> and of \<open>QGraphicsItem\<close> write one attribute each.
\<close>

definition resizeObject :: "QSizeF \<Rightarrow> MapObjectItem \<Rightarrow> MapObjectItem" where
  "resizeObject s it = it\<lparr>mapObject := (mapObject it)\<lparr>sizeF := s\<rparr>\<rparr>"

definition setObjectRotation :: "qreal \<Rightarrow> MapObjectItem \<Rightarrow> MapObjectItem" where
  "setObjectRotation a it = it\<lparr>mapObject := (mapObject it)\<lparr>rotation := a\<rparr>, itemRotation := a\<rparr>"

definition setPosition :: "QPointF \<Rightarrow> MapObjectItem \<Rightarrow> MapObjectItem" where
  "setPosition p it = it\<lparr>mapObject := (mapObject it)\<lparr>position := p\<rparr>\<rparr>"

definition setPolygon :: "QPointF list \<Rightarrow> MapObjectItem \<Rightarrow> MapObjectItem" where
  "setPolygon ps it = it\<lparr>mapObject := (mapObject it)\<lparr>polygon := ps\<rparr>\<rparr>"

definition setPos :: "QPointF \<Rightarrow> MapObjectItem \<Rightarrow> MapObjectItem" where
  "setPos p it = it\<lparr>pos := p\<rparr>"

definition setZValue :: "qreal \<Rightarrow> MapObjectItem \<Rightarrow> MapObjectItem" where
  "setZValue z it = it\<lparr>zValue := z\<rparr>"

text \<open>The snapshot of one selected object, taken when a gesture starts.\<close>

record MovingObject =
  item :: nat
  oldItemPosition :: QPointF
  oldPosition :: QPointF
  oldSize :: QSizeF
  oldPolygon :: "QPointF list"
  oldRotation :: qreal

record RotateHandle =
  rotatePos :: QPointF
  rotateRotation :: qreal
  rotateVisible :: bool

record ResizeHandle =
  resizePos :: QPointF
  resizingOrigin :: QPointF
  resizeRotation :: qreal
  resizeVisible :: bool

text \<open>The axis flags a resize handle gets in its constructor, and its anchor.\<close>

fun resizingLimitHorizontal :: "AnchorPosition \<Rightarrow> bool" where
  "resizingLimitHorizontal TopAnchor = True"
| "resizingLimitHorizontal BottomAnchor = True"
| "resizingLimitHorizontal _ = False"

fun resizingLimitVertical :: "AnchorPosition \<Rightarrow> bool" where
  "resizingLimitVertical LeftAnchor = True"
| "resizingLimitVertical RightAnchor = True"
| "resizingLimitVertical _ = False"

definition cornerAnchors :: "AnchorPosition list" where
  "cornerAnchors = [TopLeftAnchor, TopRightAnchor, BottomLeftAnchor, BottomRightAnchor]"

definition allAnchors :: "AnchorPosition list" where
  "allAnchors = cornerAnchors @ [TopAnchor, LeftAnchor, RightAnchor, BottomAnchor]"

section \<open>Undo commands\<close>

text \<open>
  Modelled from the spec: the undo commands (move-to-position, rotate-to-angle,
  resize-to-size, set-polygon) and the undo stack are declared outside the source file. Each
  command is reversible and applied by value: it is built from the object and the value
  to go back to, and keeps the value the object has when the command is built for
  \<open>redo\<close>. \<open>QUndoStack::push\<close> runs \<open>redo\<close> once; between \<open>beginMacro\<close> and
  \<open>endMacro\<close> the pushed commands become the children of one macro command, which is
  one step of the stack and undoes its children last to first.
\<close>

datatype UndoCommand =
  MoveMapObject nat QPointF QPointF
  | RotateMapObject nat qreal qreal
  | ResizeMapObject nat QSizeF QSizeF
  | ChangePolygon nat "QPointF list" "QPointF list"

record Macro =
  macroText :: string
  macroCount :: nat
  children :: "UndoCommand list"

fun redoCommand :: "UndoCommand \<Rightarrow> (nat \<Rightarrow> MapObjectItem) \<Rightarrow> (nat \<Rightarrow> MapObjectItem)" where
  "redoCommand (MoveMapObject i old new) st = st(i := setPosition new (st i))"
| "redoCommand (RotateMapObject i old new) st = st(i := setObjectRotation new (st i))"
| "redoCommand (ResizeMapObject i old new) st = st(i := resizeObject new (st i))"
| "redoCommand (ChangePolygon i old new) st = st(i := setPolygon new (st i))"

fun undoCommand :: "UndoCommand \<Rightarrow> (nat \<Rightarrow> MapObjectItem) \<Rightarrow> (nat \<Rightarrow> MapObjectItem)" where
  "undoCommand (MoveMapObject i old new) st = st(i := setPosition old (st i))"
| "undoCommand (RotateMapObject i old new) st = st(i := setObjectRotation old (st i))"
| "undoCommand (ResizeMapObject i old new) st = st(i := resizeObject old (st i))"
| "undoCommand (ChangePolygon i old new) st = st(i := setPolygon old (st i))"

definition undoMacro :: "Macro \<Rightarrow> (nat \<Rightarrow> MapObjectItem) \<Rightarrow> (nat \<Rightarrow> MapObjectItem)" where
  "undoMacro m st = fold undoCommand (rev (children m)) st"

text \<open>Building a command reads the current value of the object.\<close>

definition newMoveMapObject :: "nat \<Rightarrow> QPointF \<Rightarrow> (nat \<Rightarrow> MapObjectItem) \<Rightarrow> UndoCommand" where
  "newMoveMapObject i old st = MoveMapObject i old (position (mapObject (st i)))"

definition newRotateMapObject :: "nat \<Rightarrow> qreal \<Rightarrow> (nat \<Rightarrow> MapObjectItem) \<Rightarrow> UndoCommand" where
  "newRotateMapObject i old st = RotateMapObject i old (rotation (mapObject (st i)))"

definition newResizeMapObject :: "nat \<Rightarrow> QSizeF \<Rightarrow> (nat \<Rightarrow> MapObjectItem) \<Rightarrow> UndoCommand" where
  "newResizeMapObject i old st = ResizeMapObject i old (sizeF (mapObject (st i)))"

definition newChangePolygon :: "nat \<Rightarrow> QPointF list \<Rightarrow> (nat \<Rightarrow> MapObjectItem) \<Rightarrow> UndoCommand" where
  "newChangePolygon i old st = ChangePolygon i old (polygon (mapObject (st i)))"

text \<open>
  \<open>undoStack->push(new C(...))\<close> inside a macro: the command is built on the current
  store, run once, and appended to the children of the open macro.
\<close>

definition push ::
  "((nat \<Rightarrow> MapObjectItem) \<Rightarrow> UndoCommand) \<Rightarrow>
   (nat \<Rightarrow> MapObjectItem) \<times> UndoCommand list \<Rightarrow> (nat \<Rightarrow> MapObjectItem) \<times> UndoCommand list" where
  "push mk acc = (let c = mk (fst acc) in (redoCommand c (fst acc), snd acc @ [c]))"

section \<open>The tool and its collaborators\<close>

text \<open>
  Modelled from the spec: the renderer, the snap helper and the platform are not in the
  source file. The renderer converts between pixel and screen coordinates; a snap helper is
  built from the modifiers, can be toggled, says whether it snaps and snaps a pixel
  position; \<open>startDragDistance\<close> is the drag threshold of the platform, and
  \<open>isometric\<close> says whether the map orientation is \<open>Map::Isometric\<close>.
\<close>

record 'sh Env =
  pixelToScreenCoords :: "QPointF \<Rightarrow> QPointF"
  screenToPixelCoords :: "QPointF \<Rightarrow> QPointF"
  newSnapHelper :: "Modifiers \<Rightarrow> 'sh"
  toggleSnap :: "'sh \<Rightarrow> 'sh"
  snaps :: "'sh \<Rightarrow> bool"
  snap :: "'sh \<Rightarrow> QPointF \<Rightarrow> QPointF"
  startDragDistance :: int
  isometric :: bool

text \<open>
  The state of the tool, the handle widgets it owns, and what it reads and writes in the
  scene and the document: the store of scene items, the selected items in the order a
  \<open>foreach\<close> visits them, and the undo stack, one macro per step.
\<close>

record Tool =
  mMousePressed :: bool
  mClickedObjectItem :: "nat option"
  mClickedRotateHandle :: "AnchorPosition option"
  mClickedResizeHandle :: "AnchorPosition option"
  mMovingObjects :: "MovingObject list"
  mAlignPosition :: QPointF
  mOrigin :: QPointF
  mResizingLimitHorizontal :: bool
  mResizingLimitVertical :: bool
  mMode :: Mode
  mAction :: Action
  mStart :: QPointF
  mScreenStart :: "int \<times> int"
  originIndicatorPos :: QPointF
  originIndicatorVisible :: bool
  mRotateHandles :: "AnchorPosition \<Rightarrow> RotateHandle"
  mResizeHandles :: "AnchorPosition \<Rightarrow> ResizeHandle"
  selectionRectangle :: QRectF
  selectionRectangleInScene :: bool
  items :: "nat \<Rightarrow> MapObjectItem"
  selectedObjectItems :: "nat list"
  undoStack :: "Macro list"

text \<open>A null pointer read, \<open>first()\<close> of an empty list and a quotient by zero are faults.\<close>

datatype Fault = NoClickedHandle | EmptySnapshot | ZeroDivisor

section \<open>Bounds of an object\<close>

definition bounds :: "MapObject \<Rightarrow> QRectF" where
  "bounds ob = mkRect (position ob) (sizeF ob)"

text \<open>\<open>pixelBounds\<close> asserts that the object is no tile object.\<close>

definition pixelBounds :: "MapObject \<Rightarrow> QRectF" where
  "pixelBounds ob =
     (case shape ob of
        Ellipse \<Rightarrow> align (bounds ob) (alignment ob)
      | Rectangle \<Rightarrow> align (bounds ob) (alignment ob)
      | Polygon \<Rightarrow> boundingRect (translated (polygon ob) (position ob))
      | Polyline \<Rightarrow> boundingRect (translated (polygon ob) (position ob)))"

definition resizeInPixelSpace :: "MapObject \<Rightarrow> bool" where
  "resizeInPixelSpace ob = (cell ob = None)"

definition objectBounds :: "'sh Env \<Rightarrow> MapObject \<Rightarrow> QTransform \<Rightarrow> QRectF" where
  "objectBounds env ob transform =
     (case cell ob of
        Some tile \<Rightarrow>
          let p = pixelToScreenCoords env (position ob);
              objectSize = sizeF ob;
              scaleX = (if imgWidth tile > 0 then fst objectSize / of_int (imgWidth tile) else 0);
              scaleY = (if imgHeight tile > 0 then snd objectSize / of_int (imgHeight tile) else 0);
              b = \<lparr>rx = fst p + of_int (tileOffsetX tile) * scaleX,
                   ry = snd p + of_int (tileOffsetY tile) * scaleY,
                   rw = fst objectSize, rh = snd objectSize\<rparr>
          in mapRect transform (align b (alignment ob))
      | None \<Rightarrow>
          (case shape ob of
             Ellipse \<Rightarrow>
               boundingRect (mapPolygon transform
                 (map (pixelToScreenCoords env) (rectPolygon (align (bounds ob) (alignment ob)))))
           | Rectangle \<Rightarrow>
               boundingRect (mapPolygon transform
                 (map (pixelToScreenCoords env) (rectPolygon (align (bounds ob) (alignment ob)))))
           | Polygon \<Rightarrow>
               boundingRect (mapPolygon transform
                 (map (pixelToScreenCoords env) (translated (polygon ob) (position ob))))
           | Polyline \<Rightarrow>
               boundingRect (mapPolygon transform
                 (map (pixelToScreenCoords env) (translated (polygon ob) (position ob))))))"

definition objectTransform :: "'sh Env \<Rightarrow> MapObject \<Rightarrow> QTransform" where
  "objectTransform env ob =
     (if rotation ob \<noteq> 0 then rotateAt (pixelToScreenCoords env (position ob)) (rotation ob)
      else IdentityTransform)"

section \<open>Handles\<close>

definition updateHandleVisibility :: "Tool \<Rightarrow> Tool" where
  "updateHandleVisibility s =
     (let hasSelection = (selectedObjectItems s \<noteq> []);
          showHandles = (hasSelection \<and> (mAction s = NoAction \<or> mAction s = Selecting));
          showOrigin = (hasSelection \<and> mAction s \<noteq> Moving \<and>
                        (mMode s = Rotate \<or> mAction s = Resizing))
      in s\<lparr>mRotateHandles := (\<lambda>a. if a \<in> set cornerAnchors
                 then (mRotateHandles s a)\<lparr>rotateVisible := (showHandles \<and> mMode s = Rotate)\<rparr>
                 else mRotateHandles s a),
            mResizeHandles := (\<lambda>a. (mResizeHandles s a)\<lparr>resizeVisible := (showHandles \<and> mMode s = Resize)\<rparr>),
            originIndicatorVisible := showOrigin\<rparr>)"

text \<open>The corners and the centre the handles are placed at, and their rotation.\<close>

record HandleGeometry =
  gTopLeft :: QPointF
  gTopRight :: QPointF
  gBottomLeft :: QPointF
  gBottomRight :: QPointF
  gCenter :: QPointF
  gRotation :: qreal

definition cornersOf :: "(QPointF \<Rightarrow> QPointF) \<Rightarrow> QRectF \<Rightarrow> qreal \<Rightarrow> HandleGeometry" where
  "cornersOf f r a =
     \<lparr>gTopLeft = f (topLeft r), gTopRight = f (topRight r), gBottomLeft = f (bottomLeft r),
      gBottomRight = f (bottomRight r), gCenter = f (center r), gRotation = a\<rparr>"

fun handleGeometry :: "'sh Env \<Rightarrow> MapObject list \<Rightarrow> HandleGeometry" where
  "handleGeometry env [] = cornersOf (\<lambda>p. p) nullRect 0"
| "handleGeometry env [ob] =
     (if resizeInPixelSpace ob then
        cornersOf (\<lambda>p. mapPoint (objectTransform env ob) (pixelToScreenCoords env p))
          (pixelBounds ob)
          (if isometric env then rotation ob + 45 else rotation ob)
      else
        cornersOf (mapPoint (objectTransform env ob))
          (objectBounds env ob IdentityTransform) (rotation ob))"
| "handleGeometry env (ob # obs) =
     cornersOf (\<lambda>p. p)
       (fold (\<lambda>x acc. united acc (objectBounds env x (objectTransform env x))) obs
          (objectBounds env ob (objectTransform env ob)))
       0"

definition placeHandles :: "HandleGeometry \<Rightarrow> Tool \<Rightarrow> Tool" where
  "placeHandles g s =
     (let top = midpoint (gTopLeft g) (gTopRight g);
          left = midpoint (gTopLeft g) (gBottomLeft g);
          right = midpoint (gTopRight g) (gBottomRight g);
          bottom = midpoint (gBottomLeft g) (gBottomRight g);
          rpos = (\<lambda>a. case a of
                    TopLeftAnchor \<Rightarrow> gTopLeft g | TopRightAnchor \<Rightarrow> gTopRight g
                  | BottomLeftAnchor \<Rightarrow> gBottomLeft g | BottomRightAnchor \<Rightarrow> gBottomRight g
                  | TopAnchor \<Rightarrow> top | LeftAnchor \<Rightarrow> left
                  | RightAnchor \<Rightarrow> right | BottomAnchor \<Rightarrow> bottom);
          rorigin = (\<lambda>a. case a of
                    TopLeftAnchor \<Rightarrow> gBottomRight g | TopRightAnchor \<Rightarrow> gBottomLeft g
                  | BottomLeftAnchor \<Rightarrow> gTopRight g | BottomRightAnchor \<Rightarrow> gTopLeft g
                  | TopAnchor \<Rightarrow> bottom | LeftAnchor \<Rightarrow> right
                  | RightAnchor \<Rightarrow> left | BottomAnchor \<Rightarrow> top)
      in s\<lparr>originIndicatorPos := gCenter g,
            mRotateHandles := (\<lambda>a. if a \<in> set cornerAnchors
                 then (mRotateHandles s a)\<lparr>rotatePos := rpos a, rotateRotation := gRotation g\<rparr>
                 else mRotateHandles s a),
            mResizeHandles := (\<lambda>a. (mResizeHandles s a)
                 \<lparr>resizePos := rpos a, resizingOrigin := rorigin a, resizeRotation := gRotation g\<rparr>)\<rparr>)"

definition updateHandles :: "'sh Env \<Rightarrow> Tool \<Rightarrow> Tool" where
  "updateHandles env s =
     (if mAction s = Moving \<or> mAction s = Rotating \<or> mAction s = Resizing then s
      else
        let objects = map (\<lambda>i. mapObject (items s i)) (selectedObjectItems s)
        in updateHandleVisibility
             (if objects \<noteq> [] then placeHandles (handleGeometry env objects) s else s))"

section \<open>Snapshot and deletion\<close>

definition snapshotOf :: "Tool \<Rightarrow> nat \<Rightarrow> MovingObject" where
  "snapshotOf s i =
     \<lparr>item = i,
      oldItemPosition = pos (items s i),
      oldPosition = position (mapObject (items s i)),
      oldSize = sizeF (mapObject (items s i)),
      oldPolygon = polygon (mapObject (items s i)),
      oldRotation = rotation (mapObject (items s i))\<rparr>"

definition saveSelectionState :: "Tool \<Rightarrow> Tool" where
  "saveSelectionState s = s\<lparr>mMovingObjects := map (snapshotOf s) (selectedObjectItems s)\<rparr>"

text \<open>
  Modelled from the spec: \<open>MapScene::setSelectedObjectItems\<close> is not in the source file; the
  handle set is recomputed whenever the selection changes.
\<close>

definition setSelectedObjectItems :: "'sh Env \<Rightarrow> nat list \<Rightarrow> Tool \<Rightarrow> Tool" where
  "setSelectedObjectItems env sel s = updateHandles env (s\<lparr>selectedObjectItems := sel\<rparr>)"

text \<open>
  One round of the loop of \<open>objectsRemoved\<close>: an object that is not in the removed list
  gets its old position back, its item the old item position and, when rotating, the
  old rotation.
\<close>

definition restoreObject ::
  "Action \<Rightarrow> nat list \<Rightarrow> MovingObject \<Rightarrow> (nat \<Rightarrow> MapObjectItem) \<Rightarrow> (nat \<Rightarrow> MapObjectItem)" where
  "restoreObject act removed ob st =
     (if item ob \<notin> set removed then
        let it1 = setPos (oldItemPosition ob) (setPosition (oldPosition ob) (st (item ob)));
            it2 = (if act = Rotating then setObjectRotation (oldRotation ob) it1 else it1)
        in st(item ob := it2)
      else st)"

definition objectsRemoved :: "nat list \<Rightarrow> Tool \<Rightarrow> Tool" where
  "objectsRemoved removed s =
     (if mAction s \<noteq> Moving \<and> mAction s \<noteq> Rotating then s
      else s\<lparr>items := fold (restoreObject (mAction s) removed) (mMovingObjects s) (items s),
             mMovingObjects := []\<rparr>)"

section \<open>Selecting and moving\<close>

definition startSelecting :: "Tool \<Rightarrow> Tool" where
  "startSelecting s = s\<lparr>mAction := Selecting, selectionRectangleInScene := True\<rparr>"

definition alignStep :: "MovingObject \<Rightarrow> QPointF \<Rightarrow> QPointF" where
  "alignStep ob a =
     (let p = oldPosition ob;
          a1 = (if fst p < fst a then (fst p, snd a) else a)
      in if snd p < snd a1 then (fst a1, snd p) else a1)"

definition startMoving :: "'sh Env \<Rightarrow> Modifiers \<Rightarrow> Tool \<Rightarrow> Fault + Tool" where
  "startMoving env modifiers s =
     (let s1 = (case mClickedObjectItem s of
                  Some c \<Rightarrow>
                    if \<not> altModifier modifiers \<and> c \<notin> set (selectedObjectItems s)
                    then setSelectedObjectItems env [c] s else s
                | None \<Rightarrow> s);
          s2 = (saveSelectionState s1)\<lparr>mAction := Moving\<rparr>
      in case mMovingObjects s2 of
           [] \<Rightarrow> Inl EmptySnapshot
         | ob # obs \<Rightarrow>
             Inr (updateHandleVisibility
                    (s2\<lparr>mAlignPosition := fold alignStep (ob # obs) (oldPosition ob)\<rparr>)))"

definition snapToGrid :: "'sh Env \<Rightarrow> QPointF \<Rightarrow> Modifiers \<Rightarrow> Tool \<Rightarrow> QPointF" where
  "snapToGrid env diff modifiers s =
     (let snapHelper = newSnapHelper env modifiers
      in if snaps env snapHelper then
           let alignScreenPos = pixelToScreenCoords env (mAlignPosition s);
               newAlignScreenPos = padd alignScreenPos diff;
               newAlignPixelPos = snap env snapHelper (screenToPixelCoords env newAlignScreenPos)
           in psub (pixelToScreenCoords env newAlignPixelPos) alignScreenPos
         else diff)"

definition moveObject ::
  "'sh Env \<Rightarrow> QPointF \<Rightarrow> MovingObject \<Rightarrow> (nat \<Rightarrow> MapObjectItem) \<Rightarrow> (nat \<Rightarrow> MapObjectItem)" where
  "moveObject env diff ob st =
     (let newPixelPos = padd (oldItemPosition ob) diff;
          newPos = screenToPixelCoords env newPixelPos;
          it1 = setPosition newPos (setPos newPixelPos (st (item ob)));
          it2 = (if topDownOrder (mapObject it1) then setZValue (snd newPixelPos) it1 else it1)
      in st(item ob := it2))"

definition updateMovingItems :: "'sh Env \<Rightarrow> QPointF \<Rightarrow> Modifiers \<Rightarrow> Tool \<Rightarrow> Tool" where
  "updateMovingItems env p modifiers s =
     (let diff = snapToGrid env (psub p (mStart s)) modifiers s
      in s\<lparr>items := fold (moveObject env diff) (mMovingObjects s) (items s)\<rparr>)"

text \<open>
  \<open>beginMacro\<close>, the pushes of one loop and \<open>endMacro\<close>: the commands are pushed on the
  store one after the other and end up as one macro on top of the stack.
\<close>

definition pushMacro ::
  "string \<Rightarrow> (MovingObject \<Rightarrow> ((nat \<Rightarrow> MapObjectItem) \<Rightarrow> UndoCommand) list) \<Rightarrow> Tool \<Rightarrow> Tool" where
  "pushMacro txt mk s =
     (let r = fold (\<lambda>ob acc. fold push (mk ob) acc) (mMovingObjects s) (items s, [])
      in s\<lparr>items := fst r,
            undoStack := undoStack s @
              [\<lparr>macroText = txt, macroCount = length (mMovingObjects s), children = snd r\<rparr>]\<rparr>)"

text \<open>\<open>Q_ASSERT(mAction == Moving)\<close> holds at the only call, in \<open>mouseReleased\<close>.\<close>

definition finishMoving :: "'sh Env \<Rightarrow> QPointF \<Rightarrow> Tool \<Rightarrow> Tool" where
  "finishMoving env p s =
     (let s1 = updateHandles env (s\<lparr>mAction := NoAction\<rparr>)
      in if mStart s1 = p then s1
         else (pushMacro ''Move %n Object(s)''
                 (\<lambda>ob. [newMoveMapObject (item ob) (oldPosition ob)]) s1)
              \<lparr>mMovingObjects := []\<rparr>)"

section \<open>Rotating\<close>

definition startRotating :: "Tool \<Rightarrow> Tool" where
  "startRotating s =
     updateHandleVisibility
       (saveSelectionState (s\<lparr>mAction := Rotating, mOrigin := originIndicatorPos s\<rparr>))"

definition snapAngle :: qreal where
  "snapAngle = 15 * pi / 180"

definition rotationAngleDiff :: "QPointF \<Rightarrow> QPointF \<Rightarrow> QPointF \<Rightarrow> Modifiers \<Rightarrow> qreal" where
  "rotationAngleDiff origin start p modifiers =
     (let startDiff = psub origin start;
          currentDiff = psub origin p;
          startAngle = atan2 (snd startDiff) (fst startDiff);
          currentAngle = atan2 (snd currentDiff) (fst currentDiff);
          angleDiff = currentAngle - startAngle
      in if controlModifier modifiers
         then of_int \<lfloor>(angleDiff + snapAngle / 2) / snapAngle\<rfloor> * snapAngle
         else angleDiff)"

text \<open>
  One round of the loop of \<open>updateRotatingItems\<close>, in exact arithmetic. The conversion
  of the snapped angle to degrees in doubles is \<open>snappedDegreesDouble\<close> below.
\<close>

definition rotateObject ::
  "'sh Env \<Rightarrow> QPointF \<Rightarrow> qreal \<Rightarrow> MovingObject \<Rightarrow> (nat \<Rightarrow> MapObjectItem) \<Rightarrow> (nat \<Rightarrow> MapObjectItem)" where
  "rotateObject env origin angleDiff ob st =
     (let oldRelPos = psub (oldItemPosition ob) origin;
          sn = sin angleDiff;
          cs = cos angleDiff;
          newRelPos = (fst oldRelPos * cs - snd oldRelPos * sn,
                       fst oldRelPos * sn + snd oldRelPos * cs);
          newPixelPos = padd origin newRelPos;
          newPos = screenToPixelCoords env newPixelPos;
          newRotation = oldRotation ob + angleDiff * 180 / pi
      in st(item ob :=
              setObjectRotation newRotation (setPosition newPos (setPos newPixelPos (st (item ob))))))"

definition updateRotatingItems :: "'sh Env \<Rightarrow> QPointF \<Rightarrow> Modifiers \<Rightarrow> Tool \<Rightarrow> Tool" where
  "updateRotatingItems env p modifiers s =
     (let angleDiff = rotationAngleDiff (mOrigin s) (mStart s) p modifiers
      in s\<lparr>items := fold (rotateObject env (mOrigin s) angleDiff) (mMovingObjects s) (items s)\<rparr>)"

definition finishRotating :: "'sh Env \<Rightarrow> QPointF \<Rightarrow> Tool \<Rightarrow> Tool" where
  "finishRotating env p s =
     (let s1 = updateHandles env (s\<lparr>mAction := NoAction\<rparr>)
      in if mStart s1 = p then s1
         else (pushMacro ''Rotate %n Object(s)''
                 (\<lambda>ob. [newMoveMapObject (item ob) (oldPosition ob),
                         newRotateMapObject (item ob) (oldRotation ob)]) s1)
              \<lparr>mMovingObjects := []\<rparr>)"

section \<open>Resizing\<close>

definition startResizing :: "Tool \<Rightarrow> Fault + Tool" where
  "startResizing s =
     (case mClickedResizeHandle s of
        None \<Rightarrow> Inl NoClickedHandle
      | Some a \<Rightarrow>
          Inr (updateHandleVisibility
                 (saveSelectionState
                    (s\<lparr>mAction := Resizing,
                       mOrigin := originIndicatorPos s,
                       mResizingLimitHorizontal := resizingLimitHorizontal a,
                       mResizingLimitVertical := resizingLimitVertical a,
                       mStart := resizePos (mResizeHandles s a)\<rparr>))))"

text \<open>\<open>qMax((qreal)0.01, a / b)\<close>.\<close>

definition flooredRatio :: "qreal \<Rightarrow> qreal \<Rightarrow> qreal option" where
  "flooredRatio a b = map_option (qMax 0.01) (qdiv a b)"

text \<open>The scaling factor of a resize of several objects.\<close>

definition resizeScale :: "bool \<Rightarrow> bool \<Rightarrow> QPointF \<Rightarrow> QPointF \<Rightarrow> qreal option" where
  "resizeScale limitHorizontal limitVertical diff startDiff =
     (if limitHorizontal then flooredRatio (snd diff) (snd startDiff)
      else if limitVertical then flooredRatio (fst diff) (fst startDiff)
      else (case (flooredRatio (fst diff) (fst startDiff),
                  flooredRatio (snd diff) (snd startDiff)) of
              (Some sx, Some sy) \<Rightarrow> Some (qMin sx sy)
            | _ \<Rightarrow> None))"

definition scalePolygon :: "qreal \<Rightarrow> qreal \<Rightarrow> QPointF list \<Rightarrow> QPointF list" where
  "scalePolygon rot scale ps =
     (let sn = sin rot; cs = cos rot
      in map (\<lambda>oldPoint.
           let rotPoint = (fst oldPoint * cs + snd oldPoint * sn,
                           snd oldPoint * cs - fst oldPoint * sn);
               scaledPoint = (fst rotPoint * scale, snd rotPoint * scale)
           in (fst scaledPoint * cs - snd scaledPoint * sn,
               snd scaledPoint * cs + fst scaledPoint * sn)) ps)"

definition resizeObjectBy ::
  "'sh Env \<Rightarrow> QPointF \<Rightarrow> qreal \<Rightarrow> MovingObject \<Rightarrow> (nat \<Rightarrow> MapObjectItem) \<Rightarrow> (nat \<Rightarrow> MapObjectItem)" where
  "resizeObjectBy env origin scale ob st =
     (let oldRelPos = psub (oldItemPosition ob) origin;
          scaledRelPos = (fst oldRelPos * scale, snd oldRelPos * scale);
          newScreenPos = padd origin scaledRelPos;
          newPos = screenToPixelCoords env newScreenPos;
          origSize = oldSize ob;
          newSize = (fst origSize * scale, snd origSize * scale);
          it0 = st (item ob);
          it1 = (if polygon (mapObject it0) \<noteq> []
                 then setPolygon (scalePolygon (itemRotation it0 * pi / (- 180)) scale (oldPolygon ob)) it0
                 else it0)
      in st(item ob := setPosition newPos (setPos newScreenPos (resizeObject newSize it1))))"

text \<open>
  The two scaling factors of a single object. Both quotients are computed first; where an
  axis is locked its quotient is replaced, so a zero divisor on that axis does no harm.
\<close>

definition scalingFactor ::
  "bool \<Rightarrow> bool \<Rightarrow> bool \<Rightarrow> QPointF \<Rightarrow> QPointF \<Rightarrow> (qreal option \<times> qreal option)" where
  "scalingFactor limitHorizontal limitVertical preserveAspect relPos startDiff =
     (let w = flooredRatio (fst relPos) (fst startDiff);
          h = flooredRatio (snd relPos) (snd startDiff)
      in if limitHorizontal then ((if preserveAspect then h else Some 1), h)
         else if limitVertical then (w, (if preserveAspect then w else Some 1))
         else if preserveAspect then
           (case (w, h) of
              (Some a, Some b) \<Rightarrow> (Some (qMin a b), Some (qMin a b))
            | _ \<Rightarrow> (None, None))
         else (w, h))"

text \<open>The bounds of a rectangle or an ellipse with the dragged edges put at the cursor.\<close>

definition dragHorizontal :: "AnchorPosition \<Rightarrow> QPointF \<Rightarrow> QPointF \<Rightarrow> QRectF \<Rightarrow> QRectF" where
  "dragHorizontal a p origin r =
     (case a of
        LeftAnchor \<Rightarrow> setLeft r (qMin (fst p) (fst origin))
      | TopLeftAnchor \<Rightarrow> setLeft r (qMin (fst p) (fst origin))
      | BottomLeftAnchor \<Rightarrow> setLeft r (qMin (fst p) (fst origin))
      | RightAnchor \<Rightarrow> setRight r (qMax (fst p) (fst origin))
      | TopRightAnchor \<Rightarrow> setRight r (qMax (fst p) (fst origin))
      | BottomRightAnchor \<Rightarrow> setRight r (qMax (fst p) (fst origin))
      | _ \<Rightarrow> r)"

definition dragVertical :: "AnchorPosition \<Rightarrow> QPointF \<Rightarrow> QPointF \<Rightarrow> QRectF \<Rightarrow> QRectF" where
  "dragVertical a p origin r =
     (case a of
        TopAnchor \<Rightarrow> setTop r (qMin (snd p) (snd origin))
      | TopLeftAnchor \<Rightarrow> setTop r (qMin (snd p) (snd origin))
      | TopRightAnchor \<Rightarrow> setTop r (qMin (snd p) (snd origin))
      | BottomAnchor \<Rightarrow> setBottom r (qMax (snd p) (snd origin))
      | BottomLeftAnchor \<Rightarrow> setBottom r (qMax (snd p) (snd origin))
      | BottomRightAnchor \<Rightarrow> setBottom r (qMax (snd p) (snd origin))
      | _ \<Rightarrow> r)"

definition directBounds ::
  "AnchorPosition \<Rightarrow> Alignment \<Rightarrow> QPointF \<Rightarrow> QPointF \<Rightarrow> QPointF \<Rightarrow> QSizeF \<Rightarrow> QRectF" where
  "directBounds a al p origin newPos newSize =
     unalign (dragVertical a p origin (dragHorizontal a p origin (align (mkRect newPos newSize) al))) al"

text \<open>
  The test that selects the direct computation: the origin recorded in the clicked handle
  is the origin in use, the shape is a rectangle or an ellipse, and the aspect ratio is
  not preserved.
\<close>

definition usesDirectBounds :: "Tool \<Rightarrow> AnchorPosition \<Rightarrow> QPointF \<Rightarrow> MapObject \<Rightarrow> Modifiers \<Rightarrow> bool" where
  "usesDirectBounds s a origin ob modifiers =
     (resizingOrigin (mResizeHandles s a) = origin \<and>
      (shape ob = Rectangle \<or> shape ob = Ellipse) \<and> \<not> controlModifier modifiers)"

text \<open>
  The new position (still in the space the resize is computed in), the new size and
  the new polygon, if any, of the single object.
\<close>

definition singleItemGeometry ::
  "'sh Env \<Rightarrow> Tool \<Rightarrow> AnchorPosition \<Rightarrow> MovingObject \<Rightarrow> QPointF \<Rightarrow> QPointF \<Rightarrow> Modifiers \<Rightarrow>
   Fault + (QPointF \<times> QSizeF \<times> QPointF list option)" where
  "singleItemGeometry env s a ob origin0 screenPos modifiers =
     (let mo = mapObject (items s (item ob));
          unrotate = rotateAt (oldItemPosition ob) (- oldRotation ob);
          pixelSpace = resizeInPixelSpace mo;
          preserveAspect = controlModifier modifiers;
          conv = (\<lambda>q. if pixelSpace then screenToPixelCoords env q else q);
          origin = conv (mapPoint unrotate origin0);
          p = conv (mapPoint unrotate screenPos);
          start = conv (mapPoint unrotate (mStart s));
          oldPos = (if pixelSpace then oldPosition ob else oldItemPosition ob)
      in if usesDirectBounds s a origin0 mo modifiers then
           let newBounds = directBounds a (alignment mo) p origin oldPos (oldSize ob)
           in Inr (topLeft newBounds, rsize newBounds, None)
         else
           (case scalingFactor (mResizingLimitHorizontal s) (mResizingLimitVertical s)
                   preserveAspect (psub p origin) (psub start origin) of
              (Some fw, Some fh) \<Rightarrow>
                let oldRelPos = psub oldPos origin
                in Inr (padd origin (fst oldRelPos * fw, snd oldRelPos * fh),
                        (fst (oldSize ob) * fw, snd (oldSize ob) * fh),
                        (if oldPolygon ob \<noteq> []
                         then Some (map (\<lambda>pt. (fst pt * fw, snd pt * fh)) (oldPolygon ob))
                         else None))
            | _ \<Rightarrow> Inl ZeroDivisor))"

definition updateResizingSingleItem ::
  "'sh Env \<Rightarrow> QPointF \<Rightarrow> QPointF \<Rightarrow> Modifiers \<Rightarrow> Tool \<Rightarrow> Fault + Tool" where
  "updateResizingSingleItem env origin0 screenPos modifiers s =
     (case mMovingObjects s of
        [] \<Rightarrow> Inl EmptySnapshot
      | ob # obs \<Rightarrow>
          (case mClickedResizeHandle s of
             None \<Rightarrow> Inl NoClickedHandle
           | Some a \<Rightarrow>
               (case singleItemGeometry env s a ob origin0 screenPos modifiers of
                  Inl f \<Rightarrow> Inl f
                | Inr (newPos0, newSize, newPolygon) \<Rightarrow>
                    let it0 = items s (item ob);
                        it1 = (case newPolygon of Some ps \<Rightarrow> setPolygon ps it0 | None \<Rightarrow> it0);
                        rotate = rotateAt (oldItemPosition ob) (oldRotation ob);
                        newPos1 = (if resizeInPixelSpace (mapObject it0)
                                   then pixelToScreenCoords env newPos0 else newPos0);
                        newPos = screenToPixelCoords env (mapPoint rotate newPos1)
                    in Inr (s\<lparr>items := (items s)(item ob :=
                              setPosition newPos
                                (setPos (pixelToScreenCoords env newPos)
                                   (resizeObject newSize it1)))\<rparr>))))"

text \<open>
  The origin in use: the one recorded in the clicked handle, or the centre kept in
  \<open>mOrigin\<close> while shift is held.
\<close>

definition resizeOrigin :: "Tool \<Rightarrow> AnchorPosition \<Rightarrow> Modifiers \<Rightarrow> QPointF" where
  "resizeOrigin s a modifiers =
     (if shiftModifier modifiers then mOrigin s else resizingOrigin (mResizeHandles s a))"

text \<open>The pointer position after snapping in pixel space, back in screen space.\<close>

definition snappedScreenPos :: "'sh Env \<Rightarrow> QPointF \<Rightarrow> Modifiers \<Rightarrow> QPointF" where
  "snappedScreenPos env p modifiers =
     (let sh0 = newSnapHelper env noModifier;
          snapHelper = (if altModifier modifiers then toggleSnap env sh0 else sh0);
          pixelPos = snap env snapHelper (screenToPixelCoords env p)
      in pixelToScreenCoords env pixelPos)"

definition updateResizingItems :: "'sh Env \<Rightarrow> QPointF \<Rightarrow> Modifiers \<Rightarrow> Tool \<Rightarrow> Fault + Tool" where
  "updateResizingItems env p modifiers s =
     (case mClickedResizeHandle s of
        None \<Rightarrow> Inl NoClickedHandle
      | Some a \<Rightarrow>
          let origin = resizeOrigin s a modifiers;
              s1 = s\<lparr>originIndicatorPos := origin\<rparr>;
              cur = snappedScreenPos env p modifiers;
              diff = psub cur origin;
              startDiff = psub (mStart s1) origin
          in if length (mMovingObjects s1) = 1
             then updateResizingSingleItem env origin cur modifiers s1
             else (case resizeScale (mResizingLimitHorizontal s1) (mResizingLimitVertical s1)
                          diff startDiff of
                     None \<Rightarrow> if mMovingObjects s1 = [] then Inr s1 else Inl ZeroDivisor
                   | Some scale \<Rightarrow>
                       Inr (s1\<lparr>items := fold (resizeObjectBy env origin scale)
                                          (mMovingObjects s1) (items s1)\<rparr>)))"

definition finishResizing :: "'sh Env \<Rightarrow> QPointF \<Rightarrow> Tool \<Rightarrow> Tool" where
  "finishResizing env p s =
     (let s1 = updateHandles env (s\<lparr>mAction := NoAction\<rparr>)
      in if mStart s1 = p then s1
         else (pushMacro ''Resize %n Object(s)''
                 (\<lambda>ob. [newMoveMapObject (item ob) (oldPosition ob),
                         newResizeMapObject (item ob) (oldSize ob)] @
                        (if oldPolygon ob \<noteq> [] then [newChangePolygon (item ob) (oldPolygon ob)]
                         else [])) s1)
              \<lparr>mMovingObjects := []\<rparr>)"

section \<open>Pointer movement\<close>

definition manhattanLength :: "int \<times> int \<Rightarrow> int" where
  "manhattanLength p = \<bar>fst p\<bar> + \<bar>snd p\<bar>"

text \<open>The gesture a drag starts, in the order the tests are made.\<close>

definition startGesture :: "'sh Env \<Rightarrow> Modifiers \<Rightarrow> Tool \<Rightarrow> Fault + Tool" where
  "startGesture env modifiers s =
     (if (mClickedObjectItem s \<noteq> None \<or> altModifier modifiers) \<and> \<not> shiftModifier modifiers
      then startMoving env modifiers s
      else if mClickedRotateHandle s \<noteq> None then Inr (startRotating s)
      else if mClickedResizeHandle s \<noteq> None then startResizing s
      else Inr (startSelecting s))"

text \<open>
  \<open>mouseMoved\<close>, with the cursor position \<open>QCursor::pos()\<close> as \<open>screenPos\<close>. The call of
  the base class, which is not in the source file, is left out.
\<close>

definition mouseMoved :: "'sh Env \<Rightarrow> QPointF \<Rightarrow> Modifiers \<Rightarrow> int \<times> int \<Rightarrow> Tool \<Rightarrow> Fault + Tool" where
  "mouseMoved env p modifiers screenPos s =
     (case (if mAction s = NoAction \<and> mMousePressed s then
              let dragDistance = manhattanLength (fst (mScreenStart s) - fst screenPos,
                                                  snd (mScreenStart s) - snd screenPos)
              in if dragDistance \<ge> startDragDistance env then startGesture env modifiers s
                 else Inr s
            else Inr s) of
        Inl f \<Rightarrow> Inl f
      | Inr s1 \<Rightarrow>
          (case mAction s1 of
             Selecting \<Rightarrow> Inr (s1\<lparr>selectionRectangle := normalized (rectOfCorners (mStart s1) p)\<rparr>)
           | Moving \<Rightarrow> Inr (updateMovingItems env p modifiers s1)
           | Rotating \<Rightarrow> Inr (updateRotatingItems env p modifiers s1)
           | Resizing \<Rightarrow> updateResizingItems env p modifiers s1
           | NoAction \<Rightarrow> Inr s1))"

section \<open>Pointer release\<close>

definition setMode :: "'sh Env \<Rightarrow> Mode \<Rightarrow> Tool \<Rightarrow> Tool" where
  "setMode env mode s = (if mMode s \<noteq> mode then updateHandles env (s\<lparr>mMode := mode\<rparr>) else s)"

text \<open>
  \<open>updateSelection\<close>, with the object items the scene finds in the selection rectangle
  as \<open>hits\<close>. The rectangle itself is only used for that search.
\<close>

definition updateSelection :: "'sh Env \<Rightarrow> nat list \<Rightarrow> Modifiers \<Rightarrow> Tool \<Rightarrow> Tool" where
  "updateSelection env hits modifiers s =
     (if controlModifier modifiers \<or> shiftModifier modifiers
      then setSelectedObjectItems env (remdups (hits @ selectedObjectItems s)) s
      else setSelectedObjectItems env (remdups hits) (setMode env Resize s))"

text \<open>A release of the left button without a gesture: the click changes the selection.\<close>

definition clickSelection :: "'sh Env \<Rightarrow> Modifiers \<Rightarrow> Tool \<Rightarrow> Tool" where
  "clickSelection env modifiers s =
     (if mClickedRotateHandle s \<noteq> None \<or> mClickedResizeHandle s \<noteq> None then s
      else
        (case mClickedObjectItem s of
           Some c \<Rightarrow>
             if shiftModifier modifiers \<or> controlModifier modifiers then
               setSelectedObjectItems env
                 (if c \<in> set (selectedObjectItems s) then removeAll c (selectedObjectItems s)
                  else selectedObjectItems s @ [c]) s
             else if c \<in> set (selectedObjectItems s) then
               (let s1 = setMode env (if mMode s = Resize then Rotate else Resize) s
                in setSelectedObjectItems env (selectedObjectItems s) s1)
             else setSelectedObjectItems env [c] (setMode env Resize s)
         | None \<Rightarrow>
             if \<not> shiftModifier modifiers then setSelectedObjectItems env [] s else s))"

text \<open>
  \<open>mouseReleased\<close> for the button \<open>leftButton\<close> at the scene position \<open>p\<close>. It is the one
  place the three finish handlers are called from.
\<close>

definition mouseReleased :: "'sh Env \<Rightarrow> bool \<Rightarrow> QPointF \<Rightarrow> Modifiers \<Rightarrow> nat list \<Rightarrow> Tool \<Rightarrow> Tool" where
  "mouseReleased env leftButton p modifiers hits s =
     (if \<not> leftButton then s
      else
        let s1 = (case mAction s of
                    NoAction \<Rightarrow> clickSelection env modifiers s
                  | Selecting \<Rightarrow>
                      (updateSelection env hits modifiers s)
                        \<lparr>selectionRectangleInScene := False, mAction := NoAction\<rparr>
                  | Moving \<Rightarrow> finishMoving env p s
                  | Rotating \<Rightarrow> finishRotating env p s
                  | Resizing \<Rightarrow> finishResizing env p s)
        in s1\<lparr>mMousePressed := False, mClickedObjectItem := None,
               mClickedRotateHandle := None, mClickedResizeHandle := None\<rparr>)"

section \<open>Example states\<close>

text \<open>
  An orthogonal map without snapping: pixel and screen coordinates coincide, and the
  drag threshold is four pixels.
\<close>

definition exampleEnv :: "unit Env" where
  "exampleEnv =
     \<lparr>pixelToScreenCoords = (\<lambda>p. p), screenToPixelCoords = (\<lambda>p. p),
      newSnapHelper = (\<lambda>m. ()), toggleSnap = (\<lambda>h. h), snaps = (\<lambda>h. False),
      snap = (\<lambda>h p. p), startDragDistance = 4, isometric = False\<rparr>"

definition exampleObject :: "QPointF \<Rightarrow> QSizeF \<Rightarrow> Alignment \<Rightarrow> MapObject" where
  "exampleObject p sz al =
     \<lparr>position = p, sizeF = sz, shape = Rectangle, polygon = [], rotation = 0,
      alignment = al, cell = None, topDownOrder = False\<rparr>"

definition exampleItem :: "QPointF \<Rightarrow> QSizeF \<Rightarrow> Alignment \<Rightarrow> MapObjectItem" where
  "exampleItem p sz al =
     \<lparr>mapObject = exampleObject p sz al, pos = p, itemRotation = 0, zValue = 0\<rparr>"

text \<open>Item \<open>i\<close> is a 10 by 10 rectangle at \<open>(10 i, 10 i)\<close>.\<close>

definition exampleItems :: "nat \<Rightarrow> MapObjectItem" where
  "exampleItems i = exampleItem (10 * real i, 10 * real i) (10, 10) TopLeft"

text \<open>The tool as its constructor leaves it, on the example scene with nothing selected.\<close>

definition initialTool :: Tool where
  "initialTool =
     \<lparr>mMousePressed = False, mClickedObjectItem = None, mClickedRotateHandle = None,
      mClickedResizeHandle = None, mMovingObjects = [], mAlignPosition = (0, 0),
      mOrigin = (0, 0), mResizingLimitHorizontal = False, mResizingLimitVertical = False,
      mMode = Resize, mAction = NoAction, mStart = (0, 0), mScreenStart = (0, 0),
      originIndicatorPos = (0, 0), originIndicatorVisible = False,
      mRotateHandles = (\<lambda>a. \<lparr>rotatePos = (0, 0), rotateRotation = 0, rotateVisible = False\<rparr>),
      mResizeHandles = (\<lambda>a. \<lparr>resizePos = (0, 0), resizingOrigin = (0, 0),
                                resizeRotation = 0, resizeVisible = False\<rparr>),
      selectionRectangle = nullRect, selectionRectangleInScene = False,
      items = exampleItems, selectedObjectItems = [], undoStack = []\<rparr>"

text \<open>
  Items 1 and 2 are selected and have been dragged by \<open>(5, 5)\<close>; their snapshots hold
  where they were.
\<close>

definition draggedItems :: "nat \<Rightarrow> MapObjectItem" where
  "draggedItems =
     exampleItems(1 := exampleItem (15, 15) (10, 10) TopLeft,
                  2 := exampleItem (25, 25) (10, 10) TopLeft)"

definition exampleSnapshots :: "MovingObject list" where
  "exampleSnapshots = map (snapshotOf initialTool) [1, 2]"

definition gestureTool :: "Action \<Rightarrow> Tool" where
  "gestureTool act =
     initialTool\<lparr>mMousePressed := True, mAction := act, mMovingObjects := exampleSnapshots,
                 items := draggedItems, selectedObjectItems := [1, 2],
                 mStart := (12, 12)\<rparr>"

section \<open>What the loops do to one item\<close>

text \<open>What \<open>objectsRemoved\<close> makes of the item of one snapshot.\<close>

definition restored :: "Action \<Rightarrow> nat list \<Rightarrow> MovingObject \<Rightarrow> MapObjectItem \<Rightarrow> MapObjectItem" where
  "restored act removed ob x =
     (if item ob \<notin> set removed
      then (if act = Rotating then setObjectRotation (oldRotation ob) else (\<lambda>y. y))
             (setPos (oldItemPosition ob) (setPosition (oldPosition ob) x))
      else x)"

text \<open>What the loop of a resize of several objects makes of the item of one snapshot.\<close>

definition resized :: "'sh Env \<Rightarrow> QPointF \<Rightarrow> qreal \<Rightarrow> MovingObject \<Rightarrow> MapObjectItem \<Rightarrow> MapObjectItem" where
  "resized env origin scale ob x =
     (let newScreenPos = padd origin (fst (psub (oldItemPosition ob) origin) * scale,
                                      snd (psub (oldItemPosition ob) origin) * scale);
          x1 = (if polygon (mapObject x) \<noteq> []
                then setPolygon (scalePolygon (itemRotation x * pi / (- 180)) scale (oldPolygon ob)) x
                else x)
      in setPosition (screenToPixelCoords env newScreenPos)
           (setPos newScreenPos
              (resizeObject (fst (oldSize ob) * scale, snd (oldSize ob) * scale) x1)))"

section \<open>The wording of the specification\<close>

text \<open>
  The ratio of one axis: the current offset from the pivot divided by the offset at press
  time. \<open>scaledAbout\<close> scales the offset of a point from the pivot, axis by axis.
\<close>

definition axisRatio :: "qreal \<Rightarrow> qreal \<Rightarrow> qreal \<Rightarrow> qreal" where
  "axisRatio origin start cur = (cur - origin) / (start - origin)"

definition scaledAbout :: "QPointF \<Rightarrow> qreal \<Rightarrow> qreal \<Rightarrow> QPointF \<Rightarrow> QPointF" where
  "scaledAbout origin fx fy q =
     (fst origin + (fst q - fst origin) * fx, snd origin + (snd q - snd origin) * fy)"

text \<open>
  The example gesture as a resize: the clicked handle records the origin \<open>(0, 0)\<close>,
  the reference start point is \<open>(10, 10)\<close>, and the flags are those of the handle.
\<close>

definition resizeTool :: "AnchorPosition \<Rightarrow> Tool" where
  "resizeTool a =
     (gestureTool Resizing)
       \<lparr>mClickedResizeHandle := Some a, mStart := (10, 10),
        mResizingLimitHorizontal := resizingLimitHorizontal a,
        mResizingLimitVertical := resizingLimitVertical a\<rparr>"

text \<open>The item \<open>i\<close> of the store after a step that may fail.\<close>

definition itemAfter :: "Fault + Tool \<Rightarrow> nat \<Rightarrow> MapObjectItem option" where
  "itemAfter r i = (case r of Inl f \<Rightarrow> None | Inr s \<Rightarrow> Some (items s i))"

text \<open>
  The pointer is pressed on empty canvas with nothing selected; \<open>altOnly\<close> is the alt
  modifier alone.
\<close>

definition pressedTool :: Tool where
  "pressedTool = initialTool\<lparr>mMousePressed := True\<rparr>"

definition altOnly :: Modifiers where
  "altOnly = noModifier\<lparr>altModifier := True\<rparr>"

text \<open>The gesture the dispatch of \<open>mouseMoved\<close> is said to choose.\<close>

definition chosenGesture :: "Tool \<Rightarrow> Modifiers \<Rightarrow> Action" where
  "chosenGesture s modifiers =
     (if (mClickedObjectItem s \<noteq> None \<or> altModifier modifiers) \<and> \<not> shiftModifier modifiers
      then Moving
      else if mClickedRotateHandle s \<noteq> None then Rotating
      else if mClickedResizeHandle s \<noteq> None then Resizing
      else Selecting)"

text \<open>What the loop of \<open>updateRotatingItems\<close> makes of the item of one snapshot.\<close>

definition rotated :: "'sh Env \<Rightarrow> QPointF \<Rightarrow> qreal \<Rightarrow> MovingObject \<Rightarrow> MapObjectItem \<Rightarrow> MapObjectItem" where
  "rotated env origin angleDiff ob x =
     (let newPixelPos = padd origin (rotatePoint angleDiff (psub (oldItemPosition ob) origin))
      in setObjectRotation (oldRotation ob + angleDiff * 180 / pi)
           (setPosition (screenToPixelCoords env newPixelPos) (setPos newPixelPos x)))"

text \<open>
  An angle in degrees; \<open>codeAngle\<close>, the difference of the two angles
  \<open>updateRotatingItems\<close> takes with \<open>atan2\<close>, of the directions current point to pivot
  and press point to pivot; and \<open>arcAngle\<close>, the same difference for the directions pivot
  to current point and pivot to press point, not yet brought into one turn.
\<close>

definition degrees :: "qreal \<Rightarrow> qreal" where
  "degrees rad = rad * 180 / pi"

definition codeAngle :: "QPointF \<Rightarrow> QPointF \<Rightarrow> QPointF \<Rightarrow> qreal" where
  "codeAngle origin start p =
     atan2 (snd (psub origin p)) (fst (psub origin p)) -
     atan2 (snd (psub origin start)) (fst (psub origin start))"

definition arcAngle :: "QPointF \<Rightarrow> QPointF \<Rightarrow> QPointF \<Rightarrow> qreal" where
  "arcAngle origin start p =
     atan2 (snd (psub p origin)) (fst (psub p origin)) -
     atan2 (snd (psub start origin)) (fst (psub start origin))"

text \<open>
  The example gesture as a rotation about the pivot \<open>(0, 0)\<close>, pressed at \<open>start\<close>;
  \<open>controlOnly\<close> is the snap modifier alone.
\<close>

definition rotateTool :: "QPointF \<Rightarrow> Tool" where
  "rotateTool start = (gestureTool Rotating)\<lparr>mOrigin := (0, 0), mStart := start\<rparr>"

definition controlOnly :: Modifiers where
  "controlOnly = noModifier\<lparr>controlModifier := True\<rparr>"

text \<open>
  A single selected rectangle of size 0 by 0 at \<open>(10, 10)\<close> with the given alignment,
  being resized with the bottom-right handle; every handle of such an object, and the
  origin each handle records, is at the position of the object.
\<close>

definition pointResizeTool :: "Alignment \<Rightarrow> Tool" where
  "pointResizeTool al =
     initialTool
       \<lparr>mMousePressed := True, mAction := Resizing,
        items := exampleItems(3 := exampleItem (10, 10) (0, 0) al),
        selectedObjectItems := [3],
        mMovingObjects :=
          [\<lparr>item = 3, oldItemPosition = (10, 10), oldPosition = (10, 10), oldSize = (0, 0),
            oldPolygon = [], oldRotation = 0\<rparr>],
        mClickedResizeHandle := Some BottomRightAnchor,
        mResizeHandles := (\<lambda>a. \<lparr>resizePos = (10, 10), resizingOrigin = (10, 10),
                                  resizeRotation = 0, resizeVisible = False\<rparr>),
        mStart := (10, 10), mOrigin := (10, 10), originIndicatorPos := (10, 10)\<rparr>"

section \<open>Double precision\<close>

text \<open>
  On the platforms the editor is built for, \<open>qreal\<close> is an IEEE double. Where a claim
  depends on rounding, the computation is modelled a second time with every operation
  rounded to the nearest double, ties to the even significand. A double is a real of the
  form \<open>m * 2 ^ e\<close> with a significand \<open>m\<close> of at most 53 bits; the exponent range is
  not limited, so overflow, subnormal numbers, infinities, NaN and the sign of zero are
  outside this model too.
\<close>

definition binade :: "real \<Rightarrow> int" where
  "binade x = \<lfloor>log 2 \<bar>x\<bar>\<rfloor>"

definition roundHalfEven :: "real \<Rightarrow> int" where
  "roundHalfEven x =
     (let f = \<lfloor>x\<rfloor>
      in if x - of_int f < 1 / 2 then f
         else if 1 / 2 < x - of_int f then f + 1
         else if even f then f else f + 1)"

definition roundDouble :: "real \<Rightarrow> real" where
  "roundDouble x =
     (if x = 0 then 0
      else of_int (roundHalfEven (x / 2 powi (binade x - 52))) * 2 powi (binade x - 52))"

definition representable :: "real \<Rightarrow> bool" where
  "representable x = (roundDouble x = x)"

definition dadd :: "real \<Rightarrow> real \<Rightarrow> real" where
  "dadd a b = roundDouble (a + b)"

definition dmul :: "real \<Rightarrow> real \<Rightarrow> real" where
  "dmul a b = roundDouble (a * b)"

text \<open>The quotient of two doubles; it is only taken with a divisor that is not zero.\<close>

definition ddiv :: "real \<Rightarrow> real \<Rightarrow> real" where
  "ddiv a b = roundDouble (a / b)"

text \<open>\<open>alignmentOffset\<close>, \<open>QRectF::translate\<close>, \<open>align\<close> and \<open>unalign\<close> on doubles.\<close>

fun alignmentOffsetDouble :: "QRectF \<Rightarrow> Alignment \<Rightarrow> QPointF" where
  "alignmentOffsetDouble r TopLeft = (0, 0)"
| "alignmentOffsetDouble r Top = (ddiv (rw r) 2, 0)"
| "alignmentOffsetDouble r TopRight = (rw r, 0)"
| "alignmentOffsetDouble r Left = (0, ddiv (rh r) 2)"
| "alignmentOffsetDouble r Center = (ddiv (rw r) 2, ddiv (rh r) 2)"
| "alignmentOffsetDouble r Right = (rw r, ddiv (rh r) 2)"
| "alignmentOffsetDouble r BottomLeft = (0, rh r)"
| "alignmentOffsetDouble r Bottom = (ddiv (rw r) 2, rh r)"
| "alignmentOffsetDouble r BottomRight = (rw r, rh r)"

definition translateDouble :: "QRectF \<Rightarrow> QPointF \<Rightarrow> QRectF" where
  "translateDouble r p = r\<lparr>rx := dadd (rx r) (fst p), ry := dadd (ry r) (snd p)\<rparr>"

definition alignDouble :: "QRectF \<Rightarrow> Alignment \<Rightarrow> QRectF" where
  "alignDouble r a = translateDouble r (pneg (alignmentOffsetDouble r a))"

definition unalignDouble :: "QRectF \<Rightarrow> Alignment \<Rightarrow> QRectF" where
  "unalignDouble r a = translateDouble r (alignmentOffsetDouble r a)"

text \<open>The rectangle \<open>QRectF(0.1, 0.1, 0.3, 0.7)\<close>: each literal is the nearest double.\<close>

definition tenthsRect :: QRectF where
  "tenthsRect =
     \<lparr>rx = roundDouble (1 / 10), ry = roundDouble (1 / 10),
      rw = roundDouble (3 / 10), rh = roundDouble (7 / 10)\<rparr>"

text \<open>
  \<open>M_PI\<close> is the double nearest to pi. \<open>snapDouble\<close> is \<open>15 * M_PI / 180\<close>, and
  \<open>snappedDegreesDouble k\<close> is what \<open>updateRotatingItems\<close> adds to the old rotation when
  \<open>std::floor\<close> has returned \<open>k\<close>: \<open>k * snap * 180 / M_PI\<close>, computed left to right.
\<close>

definition M_PI :: real where
  "M_PI = 884279719003555 / 2 ^ 48"

definition snapDouble :: real where
  "snapDouble = ddiv (dmul 15 M_PI) 180"

definition snappedDegreesDouble :: "int \<Rightarrow> real" where
  "snappedDegreesDouble k = ddiv (dmul (dmul (of_int k) snapDouble) 180) M_PI"

text \<open>
  The signed angle from the direction pivot to press point to the direction pivot to
  current point: the difference of their \<open>atan2\<close> angles, brought into the range from
  \<open>- pi\<close>, excluded, to \<open>pi\<close>.
\<close>

definition signedAngle :: "QPointF \<Rightarrow> QPointF \<Rightarrow> QPointF \<Rightarrow> qreal" where
  "signedAngle origin start p =
     (let a = arcAngle origin start p
      in if pi < a then a - 2 * pi else if a \<le> - pi then a + 2 * pi else a)"

text \<open>The same object with centre alignment, turned by 90 degrees about its position.\<close>

definition turnedPointResizeTool :: Tool where
  "turnedPointResizeTool =
     (pointResizeTool Center)
       \<lparr>items := exampleItems(3 :=
          (setObjectRotation 90 (exampleItem (10, 10) (0, 0) Center))),
        mMovingObjects :=
          [\<lparr>item = 3, oldItemPosition = (10, 10), oldPosition = (10, 10), oldSize = (0, 0),
            oldPolygon = [], oldRotation = 90\<rparr>]\<rparr>"

section \<open>Alignment round trip\<close>

lemma alignmentOffset_translate:
  "alignmentOffset (translate r p) a = alignmentOffset r a"
  by (cases a) (simp_all add: translate_def)

text \<open>In exact arithmetic the round trip is the identity.\<close>

lemma unalign_align_exact: "unalign (align r a) a = r"
  by (simp add: unalign_def align_def alignmentOffset_translate)
    (simp add: translate_def pneg_def)

section \<open>Handles leave the gesture state alone\<close>

lemma updateHandleVisibility_fields [simp]:
  "mMovingObjects (updateHandleVisibility s) = mMovingObjects s"
  "items (updateHandleVisibility s) = items s"
  "undoStack (updateHandleVisibility s) = undoStack s"
  "mStart (updateHandleVisibility s) = mStart s"
  "mAction (updateHandleVisibility s) = mAction s"
  "selectedObjectItems (updateHandleVisibility s) = selectedObjectItems s"
  by (simp_all add: updateHandleVisibility_def Let_def)

lemma placeHandles_fields [simp]:
  "mMovingObjects (placeHandles g s) = mMovingObjects s"
  "items (placeHandles g s) = items s"
  "undoStack (placeHandles g s) = undoStack s"
  "mStart (placeHandles g s) = mStart s"
  "mAction (placeHandles g s) = mAction s"
  "selectedObjectItems (placeHandles g s) = selectedObjectItems s"
  by (simp_all add: placeHandles_def Let_def)

lemma updateHandles_fields [simp]:
  "mMovingObjects (updateHandles env s) = mMovingObjects s"
  "items (updateHandles env s) = items s"
  "undoStack (updateHandles env s) = undoStack s"
  "mStart (updateHandles env s) = mStart s"
  "mAction (updateHandles env s) = mAction s"
  "selectedObjectItems (updateHandles env s) = selectedObjectItems s"
  by (simp_all add: updateHandles_def Let_def)

section \<open>Loops over the snapshots\<close>

text \<open>A loop that rewrites, for each snapshot, the item of that snapshot.\<close>

lemma fold_store_other:
  assumes "\<And>ob st. f ob st = st(item ob := g ob (st (item ob)))"
    and "i \<notin> item ` set obs"
  shows "fold f obs st i = st i"
  using assms(2)
proof (induction obs arbitrary: st)
  case Nil
  then show ?case by simp
next
  case (Cons ob obs)
  then show ?case by (simp add: assms(1))
qed

lemma fold_store_distinct:
  assumes "\<And>ob st. f ob st = st(item ob := g ob (st (item ob)))"
    and "distinct (map item obs)" and "ob \<in> set obs"
  shows "fold f obs st (item ob) = g ob (st (item ob))"
  using assms(2,3)
proof (induction obs arbitrary: st)
  case Nil
  then show ?case by simp
next
  case (Cons a obs)
  show ?case
  proof (cases "ob = a")
    case True
    from Cons.prems have "item a \<notin> item ` set obs" by simp
    then have "fold f obs (f a st) (item a) = f a st (item a)"
      by (rule fold_store_other [OF assms(1)])
    also have "\<dots> = g a (st (item a))"
      by (subst assms(1)) simp
    finally show ?thesis using True by simp
  next
    case False
    with Cons.prems have in_obs: "ob \<in> set obs" and d: "distinct (map item obs)"
      and notin: "item a \<notin> item ` set obs" by auto
    from in_obs notin have ne: "item ob \<noteq> item a" by (metis imageI)
    have "fold f obs (f a st) (item ob) = g ob (f a st (item ob))"
      by (rule Cons.IH [OF d in_obs])
    also have "f a st (item ob) = st (item ob)"
      using ne by (subst assms(1)) simp
    finally show ?thesis by simp
  qed
qed

section \<open>Deletion during a gesture\<close>

lemma restoreObject_form:
  "restoreObject act removed ob st = st(item ob := restored act removed ob (st (item ob)))"
  by (simp add: restoreObject_def restored_def Let_def)

text \<open>
  Claim C5. When objects are removed during a Moving or Rotating gesture, every snapshot
  object that is not in the removed list gets its pre-gesture pixel position and item
  position back (and, when rotating, its pre-gesture rotation), the snapshot list becomes
  empty, and the action flag keeps its value. The snapshots are of distinct items, as
  \<open>saveSelectionState\<close> takes them from a set.
\<close>

theorem objectsRemoved_rollback:
  assumes act: "mAction s = Moving \<or> mAction s = Rotating"
    and dist: "distinct (map item (mMovingObjects s))"
  shows "(\<forall>ob \<in> set (mMovingObjects s). item ob \<notin> set removed \<longrightarrow>
            position (mapObject (items (objectsRemoved removed s) (item ob))) = oldPosition ob \<and>
            pos (items (objectsRemoved removed s) (item ob)) = oldItemPosition ob \<and>
            (mAction s = Rotating \<longrightarrow>
               rotation (mapObject (items (objectsRemoved removed s) (item ob))) = oldRotation ob \<and>
               itemRotation (items (objectsRemoved removed s) (item ob)) = oldRotation ob)) \<and>
         mMovingObjects (objectsRemoved removed s) = [] \<and>
         mAction (objectsRemoved removed s) = mAction s"
proof -
  have st: "items (objectsRemoved removed s) =
      fold (restoreObject (mAction s) removed) (mMovingObjects s) (items s)"
    using act by (auto simp add: objectsRemoved_def)
  have rest: "mMovingObjects (objectsRemoved removed s) = [] \<and>
      mAction (objectsRemoved removed s) = mAction s"
    using act by (auto simp add: objectsRemoved_def)
  have "position (mapObject (items (objectsRemoved removed s) (item ob))) = oldPosition ob \<and>
        pos (items (objectsRemoved removed s) (item ob)) = oldItemPosition ob \<and>
        (mAction s = Rotating \<longrightarrow>
           rotation (mapObject (items (objectsRemoved removed s) (item ob))) = oldRotation ob \<and>
           itemRotation (items (objectsRemoved removed s) (item ob)) = oldRotation ob)"
    if "ob \<in> set (mMovingObjects s)" and "item ob \<notin> set removed" for ob
  proof -
    have "items (objectsRemoved removed s) (item ob) =
        restored (mAction s) removed ob (items s (item ob))"
      unfolding st by (rule fold_store_distinct [OF restoreObject_form dist that(1)])
    then show ?thesis
      using that(2) by (simp add: restored_def setPos_def setPosition_def setObjectRotation_def)
  qed
  with rest show ?thesis by blast
qed

theorem objectsRemoved_rollback_witness:
  "position (mapObject (items (objectsRemoved [2] (gestureTool Rotating)) 1)) = (10, 10) \<and>
   pos (items (objectsRemoved [2] (gestureTool Rotating)) 1) = (10, 10) \<and>
   rotation (mapObject (items (objectsRemoved [2] (gestureTool Rotating)) 1)) = 0 \<and>
   mMovingObjects (objectsRemoved [2] (gestureTool Rotating)) = [] \<and>
   mAction (objectsRemoved [2] (gestureTool Rotating)) = Rotating"
  using objectsRemoved_rollback [of "gestureTool Rotating" "[2]"]
  by (simp add: gestureTool_def exampleSnapshots_def snapshotOf_def initialTool_def
      exampleItems_def exampleItem_def exampleObject_def)


text \<open>
  Claim C10. When objects are removed during a Resizing gesture, \<open>objectsRemoved\<close>
  returns at once: the state is unchanged, so nothing is rolled back and the snapshot list
  stays as it is.
\<close>

theorem objectsRemoved_resizing:
  "mAction s = Resizing \<Longrightarrow> objectsRemoved removed s = s"
  by (simp add: objectsRemoved_def)

theorem objectsRemoved_resizing_witness:
  "objectsRemoved [1] (gestureTool Resizing) = gestureTool Resizing \<and>
   mMovingObjects (objectsRemoved [1] (gestureTool Resizing)) = exampleSnapshots \<and>
   sizeF (mapObject (items (objectsRemoved [1] (gestureTool Resizing)) 2)) = (10, 10) \<and>
   position (mapObject (items (objectsRemoved [1] (gestureTool Resizing)) 2)) = (25, 25)"
  using objectsRemoved_resizing [of "gestureTool Resizing" "[1]"]
  by (simp add: gestureTool_def draggedItems_def exampleItem_def exampleObject_def)

section \<open>Finishing a move\<close>

lemma setPosition_same: "setPosition (position (mapObject x)) x = x"
  by (simp add: setPosition_def)

lemma push_newMoveMapObject:
  "push (newMoveMapObject i old) (st, cs) =
   (st, cs @ [MoveMapObject i old (position (mapObject (st i)))])"
  by (simp add: push_def newMoveMapObject_def Let_def setPosition_same)

lemma fold_push_move:
  "fold (\<lambda>ob. push (newMoveMapObject (item ob) (oldPosition ob))) obs (st, cs) =
   (st, cs @ map (\<lambda>ob. MoveMapObject (item ob) (oldPosition ob)
                          (position (mapObject (st (item ob))))) obs)"
  by (induction obs arbitrary: cs) (simp_all add: push_newMoveMapObject)

lemma undo_moves:
  assumes "distinct (map item obs)" and "ob \<in> set obs"
  shows "position (mapObject
           (fold undoCommand
              (rev (map (\<lambda>ob. MoveMapObject (item ob) (oldPosition ob) (new ob)) obs)) st
              (item ob))) = oldPosition ob"
proof -
  have form: "\<And>ob st. undoCommand (MoveMapObject (item ob) (oldPosition ob) (new ob)) st =
      st(item ob := setPosition (oldPosition ob) (st (item ob)))"
    by simp
  have d: "distinct (map item (rev obs))" and m: "ob \<in> set (rev obs)"
    using assms by (simp_all add: rev_map [symmetric])
  have e1: "fold undoCommand
          (rev (map (\<lambda>ob. MoveMapObject (item ob) (oldPosition ob) (new ob)) obs)) st =
        fold (\<lambda>ob. undoCommand (MoveMapObject (item ob) (oldPosition ob) (new ob))) (rev obs) st"
    by (simp add: rev_map fold_map comp_def)
  have e2: "fold (\<lambda>ob. undoCommand (MoveMapObject (item ob) (oldPosition ob) (new ob)))
          (rev obs) st (item ob) = setPosition (oldPosition ob) (st (item ob))"
    by (rule fold_store_distinct [OF form d m])
  show ?thesis
    unfolding e1 e2 by (simp add: setPosition_def)
qed

text \<open>
  Claim C6. When a Moving gesture finishes with the release point equal to the press
  point, the undo stack is left as it was: no macro and no command is pushed. Otherwise
  exactly one macro is pushed; it holds one move command per snapshot, in order, each with
  the pre-gesture position of its object, and undoing that one macro puts every snapshot
  object back at its pre-gesture position.
\<close>

theorem finishMoving_undo:
  assumes dist: "distinct (map item (mMovingObjects s))"
  shows "(mStart s = p \<longrightarrow> undoStack (finishMoving env p s) = undoStack s) \<and>
         (mStart s \<noteq> p \<longrightarrow>
            undoStack (finishMoving env p s) = undoStack s @
              [\<lparr>macroText = ''Move %n Object(s)'', macroCount = length (mMovingObjects s),
                children = map (\<lambda>ob. MoveMapObject (item ob) (oldPosition ob)
                                        (position (mapObject (items s (item ob)))))
                             (mMovingObjects s)\<rparr>] \<and>
            items (finishMoving env p s) = items s \<and>
            (\<forall>ob \<in> set (mMovingObjects s).
               position (mapObject
                 (undoMacro (last (undoStack (finishMoving env p s)))
                    (items (finishMoving env p s)) (item ob))) = oldPosition ob))"
proof (intro conjI impI)
  assume "mStart s = p"
  then show "undoStack (finishMoving env p s) = undoStack s"
    by (simp add: finishMoving_def Let_def)
next
  assume ne: "mStart s \<noteq> p"
  show stack: "undoStack (finishMoving env p s) = undoStack s @
      [\<lparr>macroText = ''Move %n Object(s)'', macroCount = length (mMovingObjects s),
        children = map (\<lambda>ob. MoveMapObject (item ob) (oldPosition ob)
                                (position (mapObject (items s (item ob)))))
                     (mMovingObjects s)\<rparr>]"
    using ne by (simp add: finishMoving_def pushMacro_def Let_def fold_push_move)
  show store: "items (finishMoving env p s) = items s"
    using ne by (simp add: finishMoving_def pushMacro_def Let_def fold_push_move)
  show "\<forall>ob \<in> set (mMovingObjects s).
      position (mapObject
        (undoMacro (last (undoStack (finishMoving env p s)))
           (items (finishMoving env p s)) (item ob))) = oldPosition ob"
    unfolding stack store
    by (simp add: undoMacro_def undo_moves [OF dist])
qed

lemma gestureTool_fields:
  "mMovingObjects (gestureTool act) =
     [\<lparr>item = 1, oldItemPosition = (10, 10), oldPosition = (10, 10), oldSize = (10, 10),
       oldPolygon = [], oldRotation = 0\<rparr>,
      \<lparr>item = 2, oldItemPosition = (20, 20), oldPosition = (20, 20), oldSize = (10, 10),
       oldPolygon = [], oldRotation = 0\<rparr>]"
  "mStart (gestureTool act) = (12, 12)"
  "mAction (gestureTool act) = act"
  "undoStack (gestureTool act) = []"
  "items (gestureTool act) = draggedItems"
  by (simp_all add: gestureTool_def exampleSnapshots_def snapshotOf_def initialTool_def
      exampleItems_def exampleItem_def exampleObject_def)

theorem finishMoving_undo_witness:
  "undoStack (finishMoving exampleEnv (12, 12) (gestureTool Moving)) = [] \<and>
   undoStack (finishMoving exampleEnv (17, 17) (gestureTool Moving)) =
     [\<lparr>macroText = ''Move %n Object(s)'', macroCount = 2,
       children = [MoveMapObject 1 (10, 10) (15, 15), MoveMapObject 2 (20, 20) (25, 25)]\<rparr>] \<and>
   position (mapObject
     (undoMacro (last (undoStack (finishMoving exampleEnv (17, 17) (gestureTool Moving))))
        (items (finishMoving exampleEnv (17, 17) (gestureTool Moving))) 2)) = (20, 20)"
proof -
  have d: "distinct (map item (mMovingObjects (gestureTool Moving)))"
    by (simp add: gestureTool_fields)
  have pos: "position (mapObject (draggedItems (Suc 0))) = (15, 15)"
    "position (mapObject (draggedItems 2)) = (25, 25)"
    by (simp_all add: draggedItems_def exampleItem_def exampleObject_def)
  from finishMoving_undo [OF d, of "(12, 12)" exampleEnv]
  have a: "undoStack (finishMoving exampleEnv (12, 12) (gestureTool Moving)) = []"
    by (simp add: gestureTool_fields)
  from finishMoving_undo [OF d, of "(17, 17)" exampleEnv]
  have b: "undoStack (finishMoving exampleEnv (17, 17) (gestureTool Moving)) =
     [\<lparr>macroText = ''Move %n Object(s)'', macroCount = 2,
       children = [MoveMapObject 1 (10, 10) (15, 15), MoveMapObject 2 (20, 20) (25, 25)]\<rparr>]"
    and c: "position (mapObject
     (undoMacro (last (undoStack (finishMoving exampleEnv (17, 17) (gestureTool Moving))))
        (items (finishMoving exampleEnv (17, 17) (gestureTool Moving))) 2)) = (20, 20)"
    by (simp_all add: gestureTool_fields pos undoMacro_def setPosition_def)
  from a b c show ?thesis by blast
qed

section \<open>The snapshot list after a gesture\<close>

lemma finish_keeps_snapshots:
  "mStart s = p \<Longrightarrow> mMovingObjects (finishMoving env p s) = mMovingObjects s"
  "mStart s = p \<Longrightarrow> mMovingObjects (finishRotating env p s) = mMovingObjects s"
  "mStart s = p \<Longrightarrow> mMovingObjects (finishResizing env p s) = mMovingObjects s"
  by (simp_all add: finishMoving_def finishRotating_def finishResizing_def Let_def)

lemma finish_clears_snapshots:
  "mStart s \<noteq> p \<Longrightarrow> mMovingObjects (finishMoving env p s) = []"
  "mStart s \<noteq> p \<Longrightarrow> mMovingObjects (finishRotating env p s) = []"
  "mStart s \<noteq> p \<Longrightarrow> mMovingObjects (finishResizing env p s) = []"
  by (simp_all add: finishMoving_def finishRotating_def finishResizing_def Let_def)

text \<open>
  Claim C7 says that the snapshot list is empty after each finish handler returns, also
  when the release point equals the start point. The handlers clear the list after
  pushing the undo macro (\<open>finish_clears_snapshots\<close>), but return before that when
  the two points are equal (\<open>finish_keeps_snapshots\<close>): on the example gesture,
  released at its start point \<open>(12, 12)\<close>, both snapshots are still in the list.
\<close>

theorem finish_noop_snapshots_left:
  "mStart (gestureTool Moving) = (12, 12) \<and>
   mMovingObjects (finishMoving exampleEnv (12, 12) (gestureTool Moving)) =
     [\<lparr>item = 1, oldItemPosition = (10, 10), oldPosition = (10, 10), oldSize = (10, 10),
       oldPolygon = [], oldRotation = 0\<rparr>,
      \<lparr>item = 2, oldItemPosition = (20, 20), oldPosition = (20, 20), oldSize = (10, 10),
       oldPolygon = [], oldRotation = 0\<rparr>] \<and>
   mMovingObjects (finishRotating exampleEnv (12, 12) (gestureTool Rotating)) \<noteq> [] \<and>
   mMovingObjects (finishResizing exampleEnv (12, 12) (gestureTool Resizing)) \<noteq> []"
  by (simp add: finish_keeps_snapshots gestureTool_fields)

section \<open>Resizing several objects\<close>

lemma resizeObjectBy_form:
  "resizeObjectBy env origin scale ob st = st(item ob := resized env origin scale ob (st (item ob)))"
  by (simp add: resizeObjectBy_def resized_def Let_def)

lemma resized_fields:
  "sizeF (mapObject (resized env origin scale ob x)) = (fst (oldSize ob) * scale, snd (oldSize ob) * scale)"
  "pos (resized env origin scale ob x) = scaledAbout origin scale scale (oldItemPosition ob)"
  "position (mapObject (resized env origin scale ob x)) =
     screenToPixelCoords env (scaledAbout origin scale scale (oldItemPosition ob))"
  by (simp_all add: resized_def Let_def setPosition_def setPos_def resizeObject_def setPolygon_def
      scaledAbout_def padd_def psub_def)

lemma updateResizingItems_several:
  assumes handle: "mClickedResizeHandle s = Some a"
    and many: "length (mMovingObjects s) \<noteq> 1"
    and dist: "distinct (map item (mMovingObjects s))"
    and scale: "resizeScale (mResizingLimitHorizontal s) (mResizingLimitVertical s)
        (psub (snappedScreenPos env p m) (resizeOrigin s a m))
        (psub (mStart s) (resizeOrigin s a m)) = Some scale"
  shows "\<exists>s'. updateResizingItems env p m s = Inr s' \<and>
      (\<forall>ob \<in> set (mMovingObjects s).
         items s' (item ob) = resized env (resizeOrigin s a m) scale ob (items s (item ob)))"
proof -
  let ?st = "fold (resizeObjectBy env (resizeOrigin s a m) scale) (mMovingObjects s) (items s)"
  have run: "updateResizingItems env p m s =
      Inr (s\<lparr>originIndicatorPos := resizeOrigin s a m, items := ?st\<rparr>)"
    using handle many scale by (simp add: updateResizingItems_def Let_def)
  have "?st (item ob) = resized env (resizeOrigin s a m) scale ob (items s (item ob))"
    if "ob \<in> set (mMovingObjects s)" for ob
    by (rule fold_store_distinct [OF resizeObjectBy_form dist that])
  with run show ?thesis by simp
qed




lemma resizeScale_horizontal_locked:
  assumes "snd start \<noteq> snd origin"
  shows "resizeScale True lv (psub cur origin) (psub start origin) =
     Some (qMax 0.01 (axisRatio (snd origin) (snd start) (snd cur)))"
  using assms by (simp add: resizeScale_def flooredRatio_def qdiv_def psub_def axisRatio_def)

lemma resizeScale_vertical_locked:
  assumes "fst start \<noteq> fst origin"
  shows "resizeScale False True (psub cur origin) (psub start origin) =
     Some (qMax 0.01 (axisRatio (fst origin) (fst start) (fst cur)))"
  using assms by (simp add: resizeScale_def flooredRatio_def qdiv_def psub_def axisRatio_def)



lemma resizeTool_fields:
  "mMovingObjects (resizeTool a) =
     [\<lparr>item = 1, oldItemPosition = (10, 10), oldPosition = (10, 10), oldSize = (10, 10),
       oldPolygon = [], oldRotation = 0\<rparr>,
      \<lparr>item = 2, oldItemPosition = (20, 20), oldPosition = (20, 20), oldSize = (10, 10),
       oldPolygon = [], oldRotation = 0\<rparr>]"
  "mStart (resizeTool a) = (10, 10)"
  "mClickedResizeHandle (resizeTool a) = Some a"
  "mResizingLimitHorizontal (resizeTool a) = resizingLimitHorizontal a"
  "mResizingLimitVertical (resizeTool a) = resizingLimitVertical a"
  "resizeOrigin (resizeTool a) a noModifier = (0, 0)"
  "items (resizeTool a) = draggedItems"
  by (simp_all add: resizeTool_def gestureTool_fields resizeOrigin_def noModifier_def)
    (simp add: gestureTool_def initialTool_def)

lemma exampleEnv_fields:
  "snappedScreenPos exampleEnv p m = p"
  "screenToPixelCoords exampleEnv = (\<lambda>p. p)"
  "pixelToScreenCoords exampleEnv = (\<lambda>p. p)"
  by (simp_all add: snappedScreenPos_def exampleEnv_def Let_def)


text \<open>
  Claim C2, as amended. With a top or bottom edge handle the one scaling factor is the
  vertical ratio, floored at 0.01; with a left or right edge handle it is the horizontal
  ratio, floored at 0.01. In both cases this one factor scales both axes: the width, the
  height and both coordinates of the offset from the pivot of every selected object.
\<close>

theorem resize_edge_scale:
  assumes handle: "mClickedResizeHandle s = Some a"
    and edge: "a \<in> {TopAnchor, BottomAnchor, LeftAnchor, RightAnchor}"
    and flags: "mResizingLimitHorizontal s = resizingLimitHorizontal a"
      "mResizingLimitVertical s = resizingLimitVertical a"
    and many: "2 \<le> length (mMovingObjects s)"
    and dist: "distinct (map item (mMovingObjects s))"
    and nz: "if resizingLimitHorizontal a
             then snd (mStart s) \<noteq> snd (resizeOrigin s a m)
             else fst (mStart s) \<noteq> fst (resizeOrigin s a m)"
  shows "\<exists>s'. updateResizingItems env p m s = Inr s' \<and>
     (let origin = resizeOrigin s a m;
          cur = snappedScreenPos env p m;
          ratioX = axisRatio (fst origin) (fst (mStart s)) (fst cur);
          ratioY = axisRatio (snd origin) (snd (mStart s)) (snd cur);
          scale = qMax 0.01 (if a = TopAnchor \<or> a = BottomAnchor then ratioY else ratioX)
      in \<forall>ob \<in> set (mMovingObjects s).
            sizeF (mapObject (items s' (item ob))) =
              (fst (oldSize ob) * scale, snd (oldSize ob) * scale) \<and>
            pos (items s' (item ob)) = scaledAbout origin scale scale (oldItemPosition ob) \<and>
            position (mapObject (items s' (item ob))) =
              screenToPixelCoords env (scaledAbout origin scale scale (oldItemPosition ob)))"
proof -
  let ?origin = "resizeOrigin s a m"
  let ?cur = "snappedScreenPos env p m"
  let ?scale = "qMax 0.01 (if a = TopAnchor \<or> a = BottomAnchor
       then axisRatio (snd ?origin) (snd (mStart s)) (snd ?cur)
       else axisRatio (fst ?origin) (fst (mStart s)) (fst ?cur))"
  have sc: "resizeScale (mResizingLimitHorizontal s) (mResizingLimitVertical s)
      (psub ?cur ?origin) (psub (mStart s) ?origin) = Some ?scale"
    using edge flags nz
    by (auto simp add: resizeScale_horizontal_locked resizeScale_vertical_locked)
  from many have ne1: "length (mMovingObjects s) \<noteq> 1" by simp
  from updateResizingItems_several [OF handle ne1 dist sc]
  obtain s' where run: "updateResizingItems env p m s = Inr s'"
    and each: "\<forall>ob \<in> set (mMovingObjects s).
         items s' (item ob) = resized env ?origin ?scale ob (items s (item ob))"
    by blast
  show ?thesis
    using run each by (auto simp add: Let_def resized_fields)
qed

theorem resize_edge_scale_witness:
  "\<exists>s'. updateResizingItems exampleEnv (10, 20) noModifier (resizeTool BottomAnchor) = Inr s' \<and>
     sizeF (mapObject (items s' 2)) = (20, 20) \<and> pos (items s' 2) = (40, 40)"
proof -
  have h: "mClickedResizeHandle (resizeTool BottomAnchor) = Some BottomAnchor"
    "BottomAnchor \<in> {TopAnchor, BottomAnchor, LeftAnchor, RightAnchor}"
    "mResizingLimitHorizontal (resizeTool BottomAnchor) = resizingLimitHorizontal BottomAnchor"
    "mResizingLimitVertical (resizeTool BottomAnchor) = resizingLimitVertical BottomAnchor"
    "2 \<le> length (mMovingObjects (resizeTool BottomAnchor))"
    "distinct (map item (mMovingObjects (resizeTool BottomAnchor)))"
    "if resizingLimitHorizontal BottomAnchor
     then snd (mStart (resizeTool BottomAnchor)) \<noteq>
            snd (resizeOrigin (resizeTool BottomAnchor) BottomAnchor noModifier)
     else fst (mStart (resizeTool BottomAnchor)) \<noteq>
            fst (resizeOrigin (resizeTool BottomAnchor) BottomAnchor noModifier)"
    by (simp_all add: resizeTool_fields)
  from resize_edge_scale [OF h, of exampleEnv "(10, 20)"]
  show ?thesis
    by (auto simp add: resizeTool_fields exampleEnv_fields Let_def axisRatio_def scaledAbout_def
        qMin_def qMax_def)
qed

text \<open>
  Claim C2 as written, with the width and the horizontal offset unchanged, fails: with
  the bottom edge handle, the pivot at \<open>(0, 0)\<close> and a vertical ratio of 2, the second
  object, 10 wide and 20 to the right of the pivot before the gesture, is 20 wide and 40
  to the right of the pivot after the update.
\<close>

theorem resize_edge_width_counterexample:
  "mClickedResizeHandle (resizeTool BottomAnchor) = Some BottomAnchor \<and>
   mResizingLimitHorizontal (resizeTool BottomAnchor) \<and>
   map oldSize (mMovingObjects (resizeTool BottomAnchor)) = [(10, 10), (10, 10)] \<and>
   map oldItemPosition (mMovingObjects (resizeTool BottomAnchor)) = [(10, 10), (20, 20)] \<and>
   resizeOrigin (resizeTool BottomAnchor) BottomAnchor noModifier = (0, 0) \<and>
   map_option (fst \<circ> sizeF \<circ> mapObject)
     (itemAfter (updateResizingItems exampleEnv (10, 20) noModifier (resizeTool BottomAnchor)) 2)
     = Some 20 \<and>
   map_option (fst \<circ> pos)
     (itemAfter (updateResizingItems exampleEnv (10, 20) noModifier (resizeTool BottomAnchor)) 2)
     = Some 40"
  by (simp add: updateResizingItems_def itemAfter_def resizeTool_fields exampleEnv_fields Let_def
      resizeScale_def flooredRatio_def qdiv_def qMax_def psub_def padd_def
      resizeObjectBy_def draggedItems_def exampleItem_def exampleObject_def
      resizeObject_def setPos_def setPosition_def)

section \<open>Starting a gesture\<close>

lemma saveSelectionState_fields [simp]:
  "mMovingObjects (saveSelectionState s) = map (snapshotOf s) (selectedObjectItems s)"
  "mAction (saveSelectionState s) = mAction s"
  "selectedObjectItems (saveSelectionState s) = selectedObjectItems s"
  by (simp_all add: saveSelectionState_def)

lemma startMoving_result:
  assumes "\<not> (altModifier m \<and> selectedObjectItems s = [])"
    and "mClickedObjectItem s \<noteq> None \<or> altModifier m"
  shows "\<exists>s'. startMoving env m s = Inr s' \<and> mAction s' = Moving"
proof (cases "mClickedObjectItem s")
  case None
  with assms show ?thesis
    by (cases "selectedObjectItems s") (simp_all add: startMoving_def Let_def)
next
  case (Some c)
  show ?thesis
  proof (cases "\<not> altModifier m \<and> c \<notin> set (selectedObjectItems s)")
    case True
    with Some show ?thesis
      by (simp add: startMoving_def Let_def setSelectedObjectItems_def)
  next
    case False
    with assms(1) have "selectedObjectItems s \<noteq> []"
      by auto
    with Some False show ?thesis
      by (cases "selectedObjectItems s") (auto simp add: startMoving_def Let_def)
  qed
qed

lemma startMoving_empty:
  "altModifier m \<Longrightarrow> selectedObjectItems s = [] \<Longrightarrow> startMoving env m s = Inl EmptySnapshot"
  by (cases "mClickedObjectItem s") (simp_all add: startMoving_def Let_def)

lemma startGesture_priority:
  assumes "\<not> (altModifier m \<and> \<not> shiftModifier m \<and> selectedObjectItems s = [])"
  shows "\<exists>s'. startGesture env m s = Inr s' \<and> mAction s' = chosenGesture s m"
proof (cases "(mClickedObjectItem s \<noteq> None \<or> altModifier m) \<and> \<not> shiftModifier m")
  case True
  with assms have "\<not> (altModifier m \<and> selectedObjectItems s = [])"
    and "mClickedObjectItem s \<noteq> None \<or> altModifier m"
    by auto
  from startMoving_result [OF this] True show ?thesis
    by (simp add: startGesture_def chosenGesture_def)
next
  case False
  then show ?thesis
    by (cases "mClickedResizeHandle s")
      (auto simp add: startGesture_def chosenGesture_def startRotating_def startResizing_def
        startSelecting_def)
qed

lemma update_keeps_action:
  "mAction (updateMovingItems env p m s) = mAction s"
  "mAction (updateRotatingItems env p m s) = mAction s"
  "updateResizingItems env p m s = Inr s' \<Longrightarrow> mAction s' = mAction s"
  by (auto simp add: updateMovingItems_def updateRotatingItems_def updateResizingItems_def
      updateResizingSingleItem_def Let_def
      split: option.splits list.splits sum.splits if_splits prod.splits)

lemma mouseMoved_below_threshold:
  assumes "mAction s = NoAction"
    and "manhattanLength (fst (mScreenStart s) - fst sp, snd (mScreenStart s) - snd sp)
         < startDragDistance env"
  shows "mouseMoved env p m sp s = Inr s"
  using assms by (simp add: mouseMoved_def Let_def)

lemma mouseMoved_dispatch:
  assumes idle: "mAction s = NoAction" and pressed: "mMousePressed s"
    and far: "startDragDistance env \<le>
         manhattanLength (fst (mScreenStart s) - fst sp, snd (mScreenStart s) - snd sp)"
    and ok: "\<not> (altModifier m \<and> \<not> shiftModifier m \<and> selectedObjectItems s = [])"
  shows "(\<exists>s1. startGesture env m s = Inr s1 \<and> mAction s1 = chosenGesture s m) \<and>
         (\<forall>s'. mouseMoved env p m sp s = Inr s' \<longrightarrow> mAction s' = chosenGesture s m)"
proof -
  from startGesture_priority [OF ok] obtain s1
    where s1: "startGesture env m s = Inr s1" and a1: "mAction s1 = chosenGesture s m"
    by blast
  have "mAction s' = chosenGesture s m" if "mouseMoved env p m sp s = Inr s'" for s'
  proof (cases "mAction s1")
    case Resizing
    with that idle pressed far s1 have "updateResizingItems env p m s1 = Inr s'"
      by (simp add: mouseMoved_def Let_def)
    from update_keeps_action(3) [OF this] a1 show ?thesis by simp
  qed (use that idle pressed far s1 a1 in
      \<open>auto simp add: mouseMoved_def Let_def update_keeps_action\<close>)
  with s1 a1 show ?thesis by blast
qed

text \<open>
  Claim C8 says that a drag that reaches the threshold starts exactly one gesture, and
  that it is Moving whenever an object was clicked or alt is held, provided shift is not
  held. Below the threshold nothing changes (\<open>mouseMoved_below_threshold\<close>), and the
  tests are made in the order of the claim (\<open>mouseMoved_dispatch\<close>). But with alt
  held, shift not held and nothing selected, \<open>startMoving\<close> takes \<open>first()\<close> of the
  empty snapshot list: on a press on empty canvas, dragged five pixels with alt held, no
  gesture state results.
\<close>

theorem mouseMoved_alt_empty_selection:
  "mAction pressedTool = NoAction \<and> mMousePressed pressedTool \<and>
   mClickedObjectItem pressedTool = None \<and> selectedObjectItems pressedTool = [] \<and>
   startDragDistance exampleEnv \<le> manhattanLength (0 - 5, 0 - 0) \<and>
   altModifier altOnly \<and> shiftModifier altOnly = False \<and>
   mouseMoved exampleEnv (5, 0) altOnly (5, 0) pressedTool = Inl EmptySnapshot"
  by (simp add: pressedTool_def initialTool_def altOnly_def noModifier_def exampleEnv_def
      manhattanLength_def mouseMoved_def startGesture_def startMoving_empty)

section \<open>Rotating with the snap modifier\<close>

lemma rotateObject_form:
  "rotateObject env origin angleDiff ob st =
   st(item ob := rotated env origin angleDiff ob (st (item ob)))"
  by (simp add: rotateObject_def rotated_def rotatePoint_def Let_def)

lemma rotated_rotation:
  "rotation (mapObject (rotated env origin angleDiff ob x)) = oldRotation ob + degrees angleDiff"
  by (simp add: rotated_def Let_def setObjectRotation_def degrees_def)

lemma updateRotatingItems_each:
  assumes "distinct (map item (mMovingObjects s))" and "ob \<in> set (mMovingObjects s)"
  shows "items (updateRotatingItems env p m s) (item ob) =
     rotated env (mOrigin s) (rotationAngleDiff (mOrigin s) (mStart s) p m) ob (items s (item ob))"
  using fold_store_distinct [OF rotateObject_form assms]
  by (simp add: updateRotatingItems_def Let_def)

lemma rotationAngleDiff_snap:
  "controlModifier m \<Longrightarrow>
   rotationAngleDiff origin start p m =
     of_int \<lfloor>(codeAngle origin start p + snapAngle / 2) / snapAngle\<rfloor> * snapAngle"
  by (simp add: rotationAngleDiff_def codeAngle_def Let_def)

lemma degrees_snapped:
  "degrees (of_int \<lfloor>(d + snapAngle / 2) / snapAngle\<rfloor> * snapAngle) =
   15 * of_int \<lfloor>(degrees d + 7.5) / 15\<rfloor>"
proof -
  have e: "(d + snapAngle / 2) / snapAngle = (degrees d + 7.5) / 15"
    by (simp add: snapAngle_def degrees_def field_simps)
  have "degrees (of_int k * snapAngle) = 15 * of_int k" for k :: int
    by (simp add: snapAngle_def degrees_def)
  then show ?thesis
    unfolding e .
qed

lemma snap_to_ninety:
  assumes "82.5 \<le> (x::real)" and "x < 97.5"
  shows "15 * of_int \<lfloor>(x + 7.5) / 15\<rfloor> = (90::real)"
proof -
  have "\<lfloor>(x + 7.5) / 15\<rfloor> = 6"
    using assms by (intro floor_unique) simp_all
  then show ?thesis by simp
qed

text \<open>Reversing a direction moves its \<open>atan2\<close> angle by half a turn.\<close>

lemma atan2_reversed:
  assumes "x \<noteq> 0 \<or> y \<noteq> 0"
  shows "atan2 (- y) (- x) = atan2 y x + pi \<or> atan2 (- y) (- x) = atan2 y x - pi"
  using assms by (auto simp add: atan2_def)

lemma codeAngle_arcAngle:
  assumes "start \<noteq> origin" and "p \<noteq> origin"
  shows "codeAngle origin start p = arcAngle origin start p \<or>
         codeAngle origin start p = arcAngle origin start p + 2 * pi \<or>
         codeAngle origin start p = arcAngle origin start p - 2 * pi"
proof -
  have s: "fst (psub start origin) \<noteq> 0 \<or> snd (psub start origin) \<noteq> 0"
    using assms(1) by (auto simp add: psub_def prod_eq_iff)
  have c: "fst (psub p origin) \<noteq> 0 \<or> snd (psub p origin) \<noteq> 0"
    using assms(2) by (auto simp add: psub_def prod_eq_iff)
  have rs: "psub origin start = (- fst (psub start origin), - snd (psub start origin))"
    and rc: "psub origin p = (- fst (psub p origin), - snd (psub p origin))"
    by (simp_all add: psub_def)
  from atan2_reversed [OF s] atan2_reversed [OF c] show ?thesis
    unfolding codeAngle_def arcAngle_def rs rc fst_conv snd_conv by auto
qed

lemma rotateTool_fields:
  "mMovingObjects (rotateTool start) =
     [\<lparr>item = 1, oldItemPosition = (10, 10), oldPosition = (10, 10), oldSize = (10, 10),
       oldPolygon = [], oldRotation = 0\<rparr>,
      \<lparr>item = 2, oldItemPosition = (20, 20), oldPosition = (20, 20), oldSize = (10, 10),
       oldPolygon = [], oldRotation = 0\<rparr>]"
  "mStart (rotateTool start) = start"
  "mOrigin (rotateTool start) = (0, 0)"
  by (simp_all add: rotateTool_def gestureTool_fields)

text \<open>The angle of the direction \<open>(7, 200)\<close> from the vertical is less than 4.5 degrees.\<close>

lemma arctan_small: "0 < arctan (7 / 200) \<and> arctan (7 / 200) < pi / 40"
proof -
  have "2 * arctan (7 / 200) = arctan ((2 * (7 / 200)) / (1 - (7 / 200)\<^sup>2))"
    by (rule arctan_double) simp
  also have "\<dots> < arctan (1 / 7)"
    by (rule arctan_monotone) (simp add: power2_eq_square)
  finally have "2 * arctan (7 / 200) < arctan (1 / 7)" .
  moreover have "0 < arctan (3 / 79)"
    by simp
  ultimately have "10 * arctan (7 / 200) < pi / 4"
    using machin_Euler by linarith
  then show ?thesis by simp
qed

lemma arctan_steep: "arctan (200 / 7) = pi / 2 - arctan (7 / 200)"
  using arctan_inverse [of "7 / 200"] by simp

text \<open>
  Claim C4 as written fails. With the pivot at \<open>(0, 0)\<close>, the press point at \<open>(1, 0)\<close>
  and the current point at \<open>(- 7, 200)\<close>, the signed angle from the direction pivot to
  press point to the direction pivot to current point is between 90 and 94.5 degrees,
  whose nearest multiple of 15 is 90; the rotation of the second object, 0 before the
  gesture, is \<open>- 270\<close> after the update.
\<close>

theorem rotate_snap_counterexample:
  "90 < degrees (signedAngle (0, 0) (1, 0) (- 7, 200)) \<and>
   degrees (signedAngle (0, 0) (1, 0) (- 7, 200)) < 94.5 \<and>
   map oldRotation (mMovingObjects (rotateTool (1, 0))) = [0, 0] \<and>
   rotation (mapObject
     (items (updateRotatingItems exampleEnv (- 7, 200) controlOnly (rotateTool (1, 0))) 2)) = - 270"
proof -
  let ?a = "arctan (7 / 200)"
  have arc: "arcAngle (0, 0) (1, 0) (- 7, 200) = pi / 2 + ?a"
    using arctan_steep by (simp add: arcAngle_def psub_def atan2_def arctan_minus)
  have sa: "signedAngle (0, 0) (1, 0) (- 7, 200) = pi / 2 + ?a"
  proof -
    have "0 < ?a" and "?a < pi / 40"
      using arctan_small by simp_all
    then have "\<not> pi < pi / 2 + ?a" and "\<not> pi / 2 + ?a \<le> - pi"
      using pi_gt_zero by linarith+
    then show ?thesis
      unfolding signedAngle_def arc Let_def by simp
  qed
  have deg_arc: "degrees (signedAngle (0, 0) (1, 0) (- 7, 200)) = 90 + degrees ?a"
    unfolding sa by (simp add: degrees_def field_simps)
  have small: "0 < degrees ?a" "degrees ?a < 4.5"
    using arctan_small pi_gt_zero by (simp_all add: degrees_def field_simps)
  have code: "codeAngle (0, 0) (1, 0) (- 7, 200) = ?a - 3 * pi / 2"
    using arctan_steep by (simp add: codeAngle_def psub_def atan2_def arctan_minus)
  have deg_code: "degrees (codeAngle (0, 0) (1, 0) (- 7, 200)) = degrees ?a - 270"
    unfolding code by (simp add: degrees_def field_simps)
  have fl: "\<lfloor>(degrees ?a - 270 + 7.5) / 15\<rfloor> = - 18"
    using small by (intro floor_unique) simp_all
  have c: "controlModifier controlOnly"
    by (simp add: controlOnly_def)
  have d: "distinct (map item (mMovingObjects (rotateTool (1, 0))))"
    and m: "\<lparr>item = 2, oldItemPosition = (20, 20), oldPosition = (20, 20), oldSize = (10, 10),
       oldPolygon = [], oldRotation = 0\<rparr> \<in> set (mMovingObjects (rotateTool (1, 0)))"
    by (simp_all add: rotateTool_fields)
  have "rotation (mapObject
     (items (updateRotatingItems exampleEnv (- 7, 200) controlOnly (rotateTool (1, 0))) 2)) =
     0 + 15 * of_int \<lfloor>(degrees (codeAngle (0, 0) (1, 0) (- 7, 200)) + 7.5) / 15\<rfloor>"
    using updateRotatingItems_each [OF d m, of exampleEnv "(- 7, 200)" controlOnly]
    by (simp add: rotated_rotation rotationAngleDiff_snap [OF c] degrees_snapped rotateTool_fields)
  also have "\<dots> = - 270"
    unfolding deg_code fl by simp
  finally show ?thesis
    using small deg_arc by (simp add: rotateTool_fields)
qed

section \<open>Resizing a single object\<close>

lemma alignmentOffset_zero_size: "rw r = 0 \<Longrightarrow> rh r = 0 \<Longrightarrow> alignmentOffset r al = (0, 0)"
  by (cases al) simp_all

lemma directBounds_bottomRight_zero:
  "directBounds BottomRightAnchor al (padd origin (20, 10)) origin origin (0, 0) =
   translate (mkRect origin (20, 10)) (alignmentOffset (mkRect origin (20, 10)) al)"
proof -
  have a: "align (mkRect origin (0, 0)) al = mkRect origin (0, 0)"
    by (simp add: align_def alignmentOffset_zero_size mkRect_def translate_def pneg_def)
  have b: "dragVertical BottomRightAnchor (padd origin (20, 10)) origin
        (dragHorizontal BottomRightAnchor (padd origin (20, 10)) origin (mkRect origin (0, 0))) =
      mkRect origin (20, 10)"
    by (simp add: dragVertical_def dragHorizontal_def setRight_def setBottom_def mkRect_def
        padd_def qMax_def)
  show ?thesis
    by (simp add: directBounds_def a b unalign_def)
qed

lemma unrotated_point: "mapPoint (rotateAt c 0) q = q"
  by (simp add: rotateAt_def padd_def psub_def rotatePoint_def)

lemma rotateAt_fixes_centre: "mapPoint (rotateAt c a) c = c"
  by (simp add: rotateAt_def padd_def psub_def rotatePoint_def)

text \<open>
  Claim C3, as amended. A single rectangle of size 0 by 0 that is no tile object is
  resized with its bottom-right handle, the origin recorded in the handle is the pivot
  in use and no aspect ratio is kept. Taken back through the rotation of the object and
  into pixel space, the pivot is the position of the object and the cursor is 20 pixels
  right and 10 pixels down from it. Then the direct computation is selected, which
  clamps the right and the bottom edge to the cursor and makes no quotient; the new size
  is \<open>(20, 10)\<close>. The new position is got from the point \<open>Q\<close>, the pivot plus the
  alignment offset of the new bounds, by mapping it to screen space, rotating it about
  the old item position by the rotation of the object and mapping it back to pixel
  space. For an unrotated object, when the renderer gives \<open>Q\<close> back from its screen
  position, the new position is \<open>Q\<close>. For top-left alignment, when the item sat at the
  screen position of the object and the renderer gives the position of the object back
  from it, the new position is the pivot, whatever the rotation.
\<close>

theorem resize_zero_size:
  assumes single: "mMovingObjects s = [ob]"
    and handle: "mClickedResizeHandle s = Some BottomRightAnchor"
    and mods: "\<not> shiftModifier m" "\<not> controlModifier m"
    and rect: "shape (mapObject (items s (item ob))) = Rectangle"
    and notile: "cell (mapObject (items s (item ob))) = None"
    and zero: "oldSize ob = (0, 0)"
    and pivot: "screenToPixelCoords env
        (mapPoint (rotateAt (oldItemPosition ob) (- oldRotation ob))
           (resizingOrigin (mResizeHandles s BottomRightAnchor))) = oldPosition ob"
    and cursor: "screenToPixelCoords env
        (mapPoint (rotateAt (oldItemPosition ob) (- oldRotation ob))
           (snappedScreenPos env p m)) = padd (oldPosition ob) (20, 10)"
  shows "\<exists>s'. updateResizingItems env p m s = Inr s' \<and>
     (let al = alignment (mapObject (items s (item ob)));
          newBounds = directBounds BottomRightAnchor al (padd (oldPosition ob) (20, 10))
                        (oldPosition ob) (oldPosition ob) (0, 0);
          offset = alignmentOffset (mkRect (oldPosition ob) (20, 10)) al
      in usesDirectBounds s BottomRightAnchor
           (resizingOrigin (mResizeHandles s BottomRightAnchor)) (mapObject (items s (item ob))) m \<and>
         rsize newBounds = (20, 10) \<and>
         topLeft newBounds = padd (oldPosition ob) offset \<and>
         sizeF (mapObject (items s' (item ob))) = rsize newBounds \<and>
         position (mapObject (items s' (item ob))) =
           screenToPixelCoords env
             (mapPoint (rotateAt (oldItemPosition ob) (oldRotation ob))
                (pixelToScreenCoords env (topLeft newBounds))) \<and>
         (oldRotation ob = 0 \<and>
          screenToPixelCoords env (pixelToScreenCoords env (topLeft newBounds)) = topLeft newBounds
            \<longrightarrow> position (mapObject (items s' (item ob))) = padd (oldPosition ob) offset) \<and>
         (al = TopLeft \<and> pixelToScreenCoords env (oldPosition ob) = oldItemPosition ob \<and>
          screenToPixelCoords env (oldItemPosition ob) = oldPosition ob \<longrightarrow>
            position (mapObject (items s' (item ob))) = oldPosition ob))"
proof -
  let ?O = "resizingOrigin (mResizeHandles s BottomRightAnchor)"
  let ?mo = "mapObject (items s (item ob))"
  let ?al = "alignment ?mo"
  let ?s1 = "s\<lparr>originIndicatorPos := ?O\<rparr>"
  let ?nb = "directBounds BottomRightAnchor ?al (padd (oldPosition ob) (20, 10))
      (oldPosition ob) (oldPosition ob) (0, 0)"
  have origin: "resizeOrigin s BottomRightAnchor m = ?O"
    using mods by (simp add: resizeOrigin_def)
  have direct: "usesDirectBounds s BottomRightAnchor ?O ?mo m"
    using rect mods by (simp add: usesDirectBounds_def)
  then have direct1: "usesDirectBounds ?s1 BottomRightAnchor ?O ?mo m"
    by (simp add: usesDirectBounds_def)
  have geo: "singleItemGeometry env ?s1 BottomRightAnchor ob ?O (snappedScreenPos env p m) m =
      Inr (topLeft ?nb, rsize ?nb, None)"
    using direct1 notile pivot cursor zero
    by (simp add: singleItemGeometry_def Let_def resizeInPixelSpace_def)
  let ?newPos = "screenToPixelCoords env
      (mapPoint (rotateAt (oldItemPosition ob) (oldRotation ob))
         (pixelToScreenCoords env (topLeft ?nb)))"
  let ?s' = "?s1\<lparr>items := (items s)(item ob :=
      setPosition ?newPos
        (setPos (pixelToScreenCoords env ?newPos) (resizeObject (rsize ?nb) (items s (item ob)))))\<rparr>"
  have run: "updateResizingItems env p m s = Inr ?s'"
    using single handle notile geo
    by (simp add: updateResizingItems_def updateResizingSingleItem_def origin Let_def
        resizeInPixelSpace_def)
  have p1: "sizeF (mapObject (items ?s' (item ob))) = rsize ?nb"
    and p2: "position (mapObject (items ?s' (item ob))) = ?newPos"
    by (simp_all add: setPosition_def setPos_def resizeObject_def)
  have nb: "?nb = translate (mkRect (oldPosition ob) (20, 10))
      (alignmentOffset (mkRect (oldPosition ob) (20, 10)) ?al)"
    by (rule directBounds_bottomRight_zero)
  have sz: "rsize ?nb = (20, 10)"
    and tl: "topLeft ?nb = padd (oldPosition ob) (alignmentOffset (mkRect (oldPosition ob) (20, 10)) ?al)"
    unfolding nb by (simp_all add: rsize_def topLeft_def translate_def mkRect_def padd_def)
  have home: "screenToPixelCoords env
        (mapPoint (rotateAt (oldItemPosition ob) (oldRotation ob))
           (pixelToScreenCoords env (topLeft ?nb))) = oldPosition ob"
    if "?al = TopLeft" and "pixelToScreenCoords env (oldPosition ob) = oldItemPosition ob"
      and "screenToPixelCoords env (oldItemPosition ob) = oldPosition ob"
  proof -
    have "topLeft ?nb = oldPosition ob"
      unfolding tl using that(1) by (simp add: padd_def)
    then show ?thesis
      using that(2,3) by (simp add: rotateAt_fixes_centre)
  qed
  have p3: "?al = TopLeft \<and> pixelToScreenCoords env (oldPosition ob) = oldItemPosition ob \<and>
      screenToPixelCoords env (oldItemPosition ob) = oldPosition ob \<longrightarrow>
      position (mapObject (items ?s' (item ob))) = oldPosition ob"
    unfolding p2 using home by blast
  have p4: "oldRotation ob = 0 \<and>
      screenToPixelCoords env (pixelToScreenCoords env (topLeft ?nb)) = topLeft ?nb \<longrightarrow>
      position (mapObject (items ?s' (item ob))) =
        padd (oldPosition ob) (alignmentOffset (mkRect (oldPosition ob) (20, 10)) ?al)"
    unfolding p2 using tl by (auto simp add: unrotated_point)
  show ?thesis
    unfolding Let_def using run direct sz tl p1 p2 p3 p4 by blast
qed


lemma pointResizeTool_fields:
  "mMovingObjects (pointResizeTool al) =
     [\<lparr>item = 3, oldItemPosition = (10, 10), oldPosition = (10, 10), oldSize = (0, 0),
       oldPolygon = [], oldRotation = 0\<rparr>]"
  "mClickedResizeHandle (pointResizeTool al) = Some BottomRightAnchor"
  "resizingOrigin (mResizeHandles (pointResizeTool al) a) = (10, 10)"
  "mStart (pointResizeTool al) = (10, 10)"
  "items (pointResizeTool al) 3 = exampleItem (10, 10) (0, 0) al"
  by (simp_all add: pointResizeTool_def initialTool_def exampleItem_def)

lemma noModifier_fields:
  "\<not> shiftModifier noModifier" "\<not> controlModifier noModifier" "\<not> altModifier noModifier"
  by (simp_all add: noModifier_def)

theorem resize_zero_size_witness:
  "\<exists>s'. updateResizingItems exampleEnv (30, 20) noModifier (pointResizeTool TopLeft) = Inr s' \<and>
     sizeF (mapObject (items s' 3)) = (20, 10) \<and>
     position (mapObject (items s' 3)) = (10, 10)"
proof -
  let ?ob = "\<lparr>item = 3, oldItemPosition = (10, 10), oldPosition = (10, 10), oldSize = (0, 0),
       oldPolygon = [], oldRotation = 0\<rparr>"
  have h: "mMovingObjects (pointResizeTool TopLeft) = [?ob]"
    "mClickedResizeHandle (pointResizeTool TopLeft) = Some BottomRightAnchor"
    "\<not> shiftModifier noModifier" "\<not> controlModifier noModifier"
    "shape (mapObject (items (pointResizeTool TopLeft) (item ?ob))) = Rectangle"
    "cell (mapObject (items (pointResizeTool TopLeft) (item ?ob))) = None"
    "oldSize ?ob = (0, 0)"
    "screenToPixelCoords exampleEnv
        (mapPoint (rotateAt (oldItemPosition ?ob) (- oldRotation ?ob))
           (resizingOrigin (mResizeHandles (pointResizeTool TopLeft) BottomRightAnchor))) =
       oldPosition ?ob"
    "screenToPixelCoords exampleEnv
        (mapPoint (rotateAt (oldItemPosition ?ob) (- oldRotation ?ob))
           (snappedScreenPos exampleEnv (30, 20) noModifier)) = padd (oldPosition ?ob) (20, 10)"
    by (simp_all add: pointResizeTool_fields noModifier_def exampleItem_def exampleObject_def
        exampleEnv_fields unrotated_point padd_def)
  have al: "alignment (mapObject (items (pointResizeTool TopLeft) 3)) = TopLeft"
    by (simp add: pointResizeTool_fields exampleItem_def exampleObject_def)
  from resize_zero_size [OF h] show ?thesis
    by (auto simp add: Let_def al exampleEnv_fields)
qed

text \<open>
  Claim C3 as written, with the position equal to the pivot, fails for an object whose
  alignment is not top-left: a 0 by 0 rectangle with centre alignment at the pivot
  \<open>(10, 10)\<close>, on a map where pixel and screen coordinates coincide, dragged with the
  bottom-right handle to \<open>(30, 20)\<close>, gets the size \<open>(20, 10)\<close> and the position
  \<open>(20, 15)\<close>.
\<close>

theorem resize_zero_size_counterexample:
  "resizeOrigin (pointResizeTool Center) BottomRightAnchor noModifier = (10, 10) \<and>
   screenToPixelCoords exampleEnv (10, 10) = (10, 10) \<and>
   psub (snappedScreenPos exampleEnv (30, 20) noModifier) (10, 10) = (20, 10) \<and>
   map_option (sizeF \<circ> mapObject)
     (itemAfter (updateResizingItems exampleEnv (30, 20) noModifier (pointResizeTool Center)) 3)
     = Some (20, 10) \<and>
   map_option (position \<circ> mapObject)
     (itemAfter (updateResizingItems exampleEnv (30, 20) noModifier (pointResizeTool Center)) 3)
     = Some (20, 15)"
proof -
  have geo: "singleItemGeometry exampleEnv
       ((pointResizeTool Center)\<lparr>originIndicatorPos := (10, 10)\<rparr>) BottomRightAnchor
       \<lparr>item = 3, oldItemPosition = (10, 10), oldPosition = (10, 10), oldSize = (0, 0),
         oldPolygon = [], oldRotation = 0\<rparr> (10, 10) (30, 20) noModifier =
     Inr ((20, 15), (20, 10), None)"
    by (simp add: singleItemGeometry_def Let_def pointResizeTool_fields exampleItem_def
        exampleObject_def resizeInPixelSpace_def usesDirectBounds_def noModifier_fields
        exampleEnv_fields
        unrotated_point directBounds_def align_def unalign_def mkRect_def translate_def
        pneg_def dragHorizontal_def dragVertical_def setRight_def setBottom_def qMax_def
        topLeft_def rsize_def)
  show ?thesis
    by (simp add: updateResizingItems_def updateResizingSingleItem_def Let_def itemAfter_def
        pointResizeTool_fields resizeOrigin_def exampleEnv_fields geo noModifier_fields
        exampleItem_def exampleObject_def resizeInPixelSpace_def unrotated_point
        setPosition_def setPos_def resizeObject_def psub_def)
qed

section \<open>The handles of an object without extent\<close>

lemma objectTransform_fixes_position:
  "mapPoint (objectTransform env mo) (pixelToScreenCoords env (position mo)) =
   pixelToScreenCoords env (position mo)"
  by (simp add: objectTransform_def rotateAt_fixes_centre)

lemma pixelBounds_zero_size:
  assumes "shape mo = Rectangle \<or> shape mo = Ellipse" and "sizeF mo = (0, 0)"
  shows "pixelBounds mo = mkRect (position mo) (0, 0)"
  using assms
  by (auto simp add: pixelBounds_def bounds_def align_def alignmentOffset_zero_size mkRect_def
      translate_def pneg_def)

lemma handleGeometry_zero_size:
  assumes "cell mo = None" and "shape mo = Rectangle \<or> shape mo = Ellipse"
    and "sizeF mo = (0, 0)"
  shows "gTopLeft (handleGeometry env [mo]) = pixelToScreenCoords env (position mo)"
    and "gTopRight (handleGeometry env [mo]) = pixelToScreenCoords env (position mo)"
    and "gBottomLeft (handleGeometry env [mo]) = pixelToScreenCoords env (position mo)"
    and "gBottomRight (handleGeometry env [mo]) = pixelToScreenCoords env (position mo)"
    and "gCenter (handleGeometry env [mo]) = pixelToScreenCoords env (position mo)"
  using assms(1) objectTransform_fixes_position [of env mo]
  by (simp_all add: resizeInPixelSpace_def cornersOf_def pixelBounds_zero_size [OF assms(2,3)]
      topLeft_def topRight_def bottomLeft_def bottomRight_def center_def mkRect_def)

lemma midpoint_same: "midpoint p p = p"
  by (simp add: midpoint_def)

lemma placeHandles_at_point:
  assumes "gTopLeft g = q" and "gTopRight g = q" and "gBottomLeft g = q"
    and "gBottomRight g = q" and "gCenter g = q"
  shows "resizePos (mResizeHandles (placeHandles g s) a) = q"
    and "resizingOrigin (mResizeHandles (placeHandles g s) a) = q"
    and "originIndicatorPos (placeHandles g s) = q"
  using assms by (cases a; simp add: placeHandles_def Let_def midpoint_same)+

lemma updateHandleVisibility_handles:
  "resizePos (mResizeHandles (updateHandleVisibility s) a) = resizePos (mResizeHandles s a)"
  "resizingOrigin (mResizeHandles (updateHandleVisibility s) a) = resizingOrigin (mResizeHandles s a)"
  "originIndicatorPos (updateHandleVisibility s) = originIndicatorPos s"
  by (simp_all add: updateHandleVisibility_def Let_def)

lemma updateHandles_zero_size:
  assumes sel: "selectedObjectItems s = [i]"
    and idle: "mAction s = NoAction"
    and notile: "cell (mapObject (items s i)) = None"
    and shp: "shape (mapObject (items s i)) = Rectangle \<or> shape (mapObject (items s i)) = Ellipse"
    and zero: "sizeF (mapObject (items s i)) = (0, 0)"
  shows "resizePos (mResizeHandles (updateHandles env s) a) =
           pixelToScreenCoords env (position (mapObject (items s i)))"
    and "resizingOrigin (mResizeHandles (updateHandles env s) a) =
           pixelToScreenCoords env (position (mapObject (items s i)))"
    and "originIndicatorPos (updateHandles env s) =
           pixelToScreenCoords env (position (mapObject (items s i)))"
proof -
  have run: "updateHandles env s =
      updateHandleVisibility (placeHandles (handleGeometry env [mapObject (items s i)]) s)"
    using sel idle by (simp add: updateHandles_def Let_def)
  note g = handleGeometry_zero_size [OF notile shp zero, of env]
  show "resizePos (mResizeHandles (updateHandles env s) a) =
           pixelToScreenCoords env (position (mapObject (items s i)))"
    unfolding run updateHandleVisibility_handles by (rule placeHandles_at_point [OF g])
  show "resizingOrigin (mResizeHandles (updateHandles env s) a) =
           pixelToScreenCoords env (position (mapObject (items s i)))"
    unfolding run updateHandleVisibility_handles by (rule placeHandles_at_point [OF g])
  show "originIndicatorPos (updateHandles env s) =
           pixelToScreenCoords env (position (mapObject (items s i)))"
    unfolding run updateHandleVisibility_handles by (rule placeHandles_at_point [OF g])
qed


text \<open>
  Pressing the bottom-right handle of such an object and starting to resize gives the
  state the theorem on the resize of an object without extent is about.
\<close>

lemma startResizing_zero_size:
  assumes sel: "selectedObjectItems s = [i]"
    and idle: "mAction s = NoAction"
    and notile: "cell (mapObject (items s i)) = None"
    and shp: "shape (mapObject (items s i)) = Rectangle"
    and zero: "sizeF (mapObject (items s i)) = (0, 0)"
    and itempos: "pos (items s i) = pixelToScreenCoords env (position (mapObject (items s i)))"
    and inv: "screenToPixelCoords env (pixelToScreenCoords env (position (mapObject (items s i)))) =
        position (mapObject (items s i))"
    and clicked: "mClickedResizeHandle s = Some BottomRightAnchor"
  shows "\<exists>s1. startResizing (updateHandles env s) = Inr s1 \<and>
     mMovingObjects s1 = [snapshotOf s i] \<and>
     mClickedResizeHandle s1 = Some BottomRightAnchor \<and>
     items s1 = items s \<and>
     oldSize (snapshotOf s i) = (0, 0) \<and>
     screenToPixelCoords env
       (mapPoint (rotateAt (oldItemPosition (snapshotOf s i)) (- oldRotation (snapshotOf s i)))
          (resizingOrigin (mResizeHandles s1 BottomRightAnchor))) = oldPosition (snapshotOf s i)"
proof -
  let ?u = "updateHandles env s"
  have shp': "shape (mapObject (items s i)) = Rectangle \<or> shape (mapObject (items s i)) = Ellipse"
    using shp by simp
  have keep: "mClickedResizeHandle ?u = Some BottomRightAnchor"
    using clicked
    by (simp add: updateHandles_def updateHandleVisibility_def placeHandles_def Let_def)
  have org: "resizingOrigin (mResizeHandles ?u BottomRightAnchor) =
      pixelToScreenCoords env (position (mapObject (items s i)))"
    by (rule updateHandles_zero_size [OF sel idle notile shp' zero])
  have snap: "snapshotOf ?u i = snapshotOf s i"
    by (simp add: snapshotOf_def)
  have fixed: "mapPoint (rotateAt (pos (items s i)) (- rotation (mapObject (items s i))))
      (pixelToScreenCoords env (position (mapObject (items s i)))) =
      pixelToScreenCoords env (position (mapObject (items s i)))"
    unfolding itempos by (rule rotateAt_fixes_centre)
  show ?thesis
    using keep sel org zero inv fixed
    by (simp add: startResizing_def saveSelectionState_def updateHandleVisibility_def Let_def
        snapshotOf_def)
qed

section \<open>Releasing the pointer where the gesture started\<close>

text \<open>
  The snapshots a finish handler leaves behind are still there when \<open>mouseReleased\<close>
  returns, with the action back at \<open>NoAction\<close>.
\<close>

lemma mouseReleased_keeps_snapshots:
  assumes "mAction s = Moving \<or> mAction s = Rotating \<or> mAction s = Resizing"
    and "mStart s = p"
  shows "mMovingObjects (mouseReleased env True p m hits s) = mMovingObjects s \<and>
         mAction (mouseReleased env True p m hits s) = NoAction"
  using assms
  by (auto simp add: mouseReleased_def Let_def finish_keeps_snapshots finishMoving_def
      finishRotating_def finishResizing_def)

section \<open>Rounding to a double\<close>

lemma binade_eq:
  assumes "2 powi e \<le> \<bar>x\<bar>" and "\<bar>x\<bar> < 2 powi (e + 1)"
  shows "binade x = e"
proof -
  have "0 < (2::real) powi e"
    by (rule zero_less_power_int) simp
  with assms(1) have pos: "0 < \<bar>x\<bar>"
    by linarith
  have p0: "(2::real) powr real_of_int e = 2 powi e"
    by (rule powr_real_of_int') simp_all
  have p1: "(2::real) powr real_of_int (e + 1) = 2 powi (e + 1)"
    by (rule powr_real_of_int') simp_all
  have "2 powr real_of_int e \<le> \<bar>x\<bar>" and "\<bar>x\<bar> < 2 powr real_of_int (e + 1)"
    unfolding p0 p1 using assms by simp_all
  then show ?thesis
    unfolding binade_def using pos by (simp add: floor_log_eq_powr_iff)
qed

lemma roundDouble_at:
  assumes "2 powi e \<le> \<bar>x\<bar>" and "\<bar>x\<bar> < 2 powi (e + 1)"
  shows "roundDouble x = of_int (roundHalfEven (x / 2 powi (e - 52))) * 2 powi (e - 52)"
proof -
  have "0 < (2::real) powi e"
    by (rule zero_less_power_int) simp
  with assms(1) have "x \<noteq> 0"
    by (cases "x = 0") simp_all
  then show ?thesis
    by (simp add: roundDouble_def binade_eq [OF assms])
qed

lemma roundDouble_zero: "roundDouble 0 = 0"
  by (simp add: roundDouble_def)

lemma double_tenths:
  "roundDouble (1 / 10) = 3602879701896397 / 2 ^ 55"
  "roundDouble (3 / 10) = 5404319552844595 / 2 ^ 54"
  "roundDouble (7 / 10) = 3152519739159347 / 2 ^ 52"
    apply (subst roundDouble_at [of "- 4"]; simp add: roundHalfEven_def Let_def)
   apply (subst roundDouble_at [of "- 2"]; simp add: roundHalfEven_def Let_def)
  apply (subst roundDouble_at [of "- 1"]; simp add: roundHalfEven_def Let_def)
  done

lemma double_tenths_sums:
  "roundDouble (3602879701896397 / 2 ^ 55 + - (3152519739159347 / 2 ^ 52)) =
     - (5404319552844595 / 2 ^ 53)"
  "roundDouble (- (5404319552844595 / 2 ^ 53) + 3152519739159347 / 2 ^ 52) =
     900719925474099 / 2 ^ 53"
   apply (subst roundDouble_at [of "- 1"]; simp add: roundHalfEven_def Let_def)
  apply (subst roundDouble_at [of "- 4"]; simp add: roundHalfEven_def Let_def)
  done


lemma roundDouble_exact:
  assumes "2 powi e \<le> \<bar>x\<bar>" and "\<bar>x\<bar> < 2 powi (e + 1)"
    and "x / 2 powi (e - 52) = of_int m"
  shows "roundDouble x = x"
proof -
  have u: "(2::real) powi (e - 52) \<noteq> 0"
    by simp
  have "roundHalfEven (of_int m) = m"
    by (simp add: roundHalfEven_def)
  then have "roundDouble x = of_int m * 2 powi (e - 52)"
    using roundDouble_at [OF assms(1,2)] assms(3) by simp
  also have "\<dots> = x"
    using assms(3) u by (simp add: field_simps)
  finally show ?thesis .
qed

section \<open>Alignment round trip in doubles\<close>

lemma alignmentOffsetDouble_translate:
  "alignmentOffsetDouble (translateDouble r p) a = alignmentOffsetDouble r a"
  by (cases a) (simp_all add: translateDouble_def)

lemma unalign_align_extent:
  "rw (unalignDouble (alignDouble r a) a) = rw r"
  "rh (unalignDouble (alignDouble r a) a) = rh r"
  by (simp_all add: unalignDouble_def alignDouble_def translateDouble_def)

lemma unalign_align_exact_sums:
  assumes "representable (rx r)" and "representable (ry r)"
    and "representable (rx r - fst (alignmentOffsetDouble r a))"
    and "representable (ry r - snd (alignmentOffsetDouble r a))"
  shows "unalignDouble (alignDouble r a) a = r"
proof -
  let ?o = "alignmentOffsetDouble r a"
  have al: "alignDouble r a = r\<lparr>rx := rx r - fst ?o, ry := ry r - snd ?o\<rparr>"
    using assms(3,4)
    by (simp add: alignDouble_def translateDouble_def pneg_def dadd_def representable_def)
  have off: "alignmentOffsetDouble (alignDouble r a) a = ?o"
    by (simp add: alignDouble_def alignmentOffsetDouble_translate)
  show ?thesis
    unfolding unalignDouble_def off
    using assms(1,2)
    by (simp add: al translateDouble_def dadd_def representable_def)
qed

text \<open>
  Claim C9, as amended. In exact arithmetic \<open>align\<close> followed by \<open>unalign\<close> with the same
  alignment gives every rectangle back. In doubles the width and the height always come
  back as they were, since the translations do not touch them, and the position does
  whenever the sums of the first translation are doubles themselves, the position of
  the rectangle being given in doubles.
\<close>

theorem unalign_align_double:
  "unalign (align r a) a = r \<and>
   rw (unalignDouble (alignDouble r a) a) = rw r \<and>
   rh (unalignDouble (alignDouble r a) a) = rh r \<and>
   (representable (rx r) \<and> representable (ry r) \<and>
    representable (rx r - fst (alignmentOffsetDouble r a)) \<and>
    representable (ry r - snd (alignmentOffsetDouble r a)) \<longrightarrow>
      unalignDouble (alignDouble r a) a = r)"
  using unalign_align_exact_sums [of r a]
  by (simp add: unalign_align_exact unalign_align_extent)

lemma small_doubles:
  "roundDouble 1 = 1" "roundDouble 2 = 2" "roundDouble 3 = 3" "roundDouble (- 1) = - 1"
     apply (rule roundDouble_exact [of 0 _ "2 ^ 52"]; simp)
    apply (rule roundDouble_exact [of 1 _ "2 ^ 52"]; simp)
   apply (rule roundDouble_exact [of 1 _ "3 * 2 ^ 51"]; simp)
  apply (rule roundDouble_exact [of 0 _ "- (2 ^ 52)"]; simp)
  done

theorem unalign_align_double_witness:
  "unalignDouble (alignDouble \<lparr>rx = 1, ry = 2, rw = 4, rh = 6\<rparr> Center) Center =
     \<lparr>rx = 1, ry = 2, rw = 4, rh = 6\<rparr>"
proof -
  have off: "alignmentOffsetDouble \<lparr>rx = 1, ry = 2, rw = 4, rh = 6\<rparr> Center = (2, 3)"
    by (simp add: ddiv_def small_doubles)
  have "representable (rx \<lparr>rx = 1, ry = 2, rw = 4, rh = 6\<rparr>) \<and>
      representable (ry \<lparr>rx = 1, ry = 2, rw = 4, rh = 6\<rparr>) \<and>
      representable (rx \<lparr>rx = 1, ry = 2, rw = 4, rh = 6\<rparr> -
        fst (alignmentOffsetDouble \<lparr>rx = 1, ry = 2, rw = 4, rh = 6\<rparr> Center)) \<and>
      representable (ry \<lparr>rx = 1, ry = 2, rw = 4, rh = 6\<rparr> -
        snd (alignmentOffsetDouble \<lparr>rx = 1, ry = 2, rw = 4, rh = 6\<rparr> Center))"
    unfolding off by (simp add: representable_def small_doubles)
  with unalign_align_double [of "\<lparr>rx = 1, ry = 2, rw = 4, rh = 6\<rparr>" Center]
  show ?thesis by blast
qed

text \<open>
  Claim C9 as written, for doubles, fails: the rectangle \<open>QRectF(0.1, 0.1, 0.3, 0.7)\<close>
  with the alignment \<open>BottomLeft\<close> comes back with a vertical position one unit in the
  last place below the one it had, \<open>0.09999999999999998\<close>.
\<close>

theorem unalign_align_double_counterexample:
  "ry tenthsRect = 3602879701896397 / 2 ^ 55 \<and>
   ry (unalignDouble (alignDouble tenthsRect BottomLeft) BottomLeft) = 900719925474099 / 2 ^ 53 \<and>
   unalignDouble (alignDouble tenthsRect BottomLeft) BottomLeft \<noteq> tenthsRect"
proof -
  have a: "ry tenthsRect = 3602879701896397 / 2 ^ 55"
    by (simp add: tenthsRect_def double_tenths)
  have h: "rh tenthsRect = 3152519739159347 / 2 ^ 52"
    by (simp add: tenthsRect_def double_tenths)
  have "ry (unalignDouble (alignDouble tenthsRect BottomLeft) BottomLeft) =
      dadd (dadd (ry tenthsRect) (- rh tenthsRect)) (rh tenthsRect)"
    by (simp add: unalignDouble_def alignDouble_def translateDouble_def pneg_def)
  also have "\<dots> = 900719925474099 / 2 ^ 53"
    unfolding a h dadd_def double_tenths_sums ..
  finally have b: "ry (unalignDouble (alignDouble tenthsRect BottomLeft) BottomLeft) =
      900719925474099 / 2 ^ 53" .
  have "ry (unalignDouble (alignDouble tenthsRect BottomLeft) BottomLeft) \<noteq> ry tenthsRect"
    unfolding a b by simp
  then have "unalignDouble (alignDouble tenthsRect BottomLeft) BottomLeft \<noteq> tenthsRect"
    by auto
  with a b show ?thesis by blast
qed

section \<open>The snapped rotation\<close>

lemma atan2_range: "- pi < atan2 y x \<and> atan2 y x \<le> pi"
proof -
  have b: "- (pi / 2) < arctan (y / x)" "arctan (y / x) < pi / 2"
    by (rule arctan_lbound, rule arctan_ubound)
  have neg: "arctan (y / x) \<le> 0" if "x < 0" "0 \<le> y"
    using that by (simp add: divide_nonneg_neg)
  have pos: "0 < arctan (y / x)" if "x < 0" "y < 0"
    using that by (simp add: divide_neg_neg)
  show ?thesis
    using b neg pos pi_gt_zero by (auto simp add: atan2_def)
qed

lemma codeAngle_range:
  "- (2 * pi) < codeAngle origin start p \<and> codeAngle origin start p < 2 * pi"
  using atan2_range [of "snd (psub origin p)" "fst (psub origin p)"]
    atan2_range [of "snd (psub origin start)" "fst (psub origin start)"]
  by (simp add: codeAngle_def)

lemma signedAngle_range:
  "- pi < signedAngle origin start p \<and> signedAngle origin start p \<le> pi"
  using atan2_range [of "snd (psub p origin)" "fst (psub p origin)"]
    atan2_range [of "snd (psub start origin)" "fst (psub start origin)"]
  by (auto simp add: signedAngle_def arcAngle_def Let_def)

lemma signedAngle_arcAngle:
  "signedAngle origin start p = arcAngle origin start p \<or>
   signedAngle origin start p = arcAngle origin start p + 2 * pi \<or>
   signedAngle origin start p = arcAngle origin start p - 2 * pi"
  by (auto simp add: signedAngle_def Let_def)

lemma codeAngle_signedAngle:
  assumes "start \<noteq> origin" and "p \<noteq> origin"
  shows "codeAngle origin start p = signedAngle origin start p \<or>
         codeAngle origin start p = signedAngle origin start p + 2 * pi \<or>
         codeAngle origin start p = signedAngle origin start p - 2 * pi"
  using codeAngle_arcAngle [OF assms] signedAngle_arcAngle [of origin start p]
    codeAngle_range [of origin start p] signedAngle_range [of origin start p] pi_gt_zero
  by argo

section \<open>The degree conversion in doubles\<close>

lemma snapDouble_value: "snapDouble = 4716158501352293 / 2 ^ 54"
proof -
  have "dmul 15 M_PI = 3316048946263331 / 2 ^ 46"
    unfolding dmul_def M_PI_def
    by (subst roundDouble_at [of 5]; simp add: roundHalfEven_def Let_def)
  moreover have "roundDouble (3316048946263331 / 2 ^ 46 / 180) = 4716158501352293 / 2 ^ 54"
    by (subst roundDouble_at [of "- 2"]; simp add: roundHalfEven_def Let_def)
  ultimately show ?thesis
    by (simp only: snapDouble_def ddiv_def)
qed

lemma snappedDegreesDouble_six: "snappedDegreesDouble 6 = 90"
proof -
  have a: "roundDouble (of_int 6 * (4716158501352293 / 2 ^ 54)) = 884279719003555 / 2 ^ 49"
    by (subst roundDouble_at [of 0]; simp add: roundHalfEven_def Let_def)
  have b: "roundDouble (884279719003555 / 2 ^ 49 * 180) = 4974073419394997 / 2 ^ 44"
    by (subst roundDouble_at [of 8]; simp add: roundHalfEven_def Let_def)
  have c: "roundDouble (4974073419394997 / 2 ^ 44 / (884279719003555 / 2 ^ 48)) = 90"
    by (subst roundDouble_at [of 6]; simp add: roundHalfEven_def Let_def)
  show ?thesis
    unfolding snappedDegreesDouble_def ddiv_def dmul_def snapDouble_value M_PI_def a b c ..
qed

lemma snappedDegreesDouble_one: "snappedDegreesDouble 1 = 15 - 1 / 2 ^ 49"
proof -
  have a: "roundDouble (of_int 1 * (4716158501352293 / 2 ^ 54)) = 4716158501352293 / 2 ^ 54"
    by (subst roundDouble_at [of "- 2"]; simp add: roundHalfEven_def Let_def)
  have b: "roundDouble (4716158501352293 / 2 ^ 54 * 180) = 3316048946263331 / 2 ^ 46"
    by (subst roundDouble_at [of 5]; simp add: roundHalfEven_def Let_def)
  have c: "roundDouble (3316048946263331 / 2 ^ 46 / (884279719003555 / 2 ^ 48)) =
      8444249301319679 / 2 ^ 49"
    by (subst roundDouble_at [of 3]; simp add: roundHalfEven_def Let_def)
  have "snappedDegreesDouble 1 = 8444249301319679 / 2 ^ 49"
    unfolding snappedDegreesDouble_def ddiv_def dmul_def snapDouble_value M_PI_def a b c ..
  then show ?thesis by simp
qed


lemma snap_quotient: "(d + snapAngle / 2) / snapAngle = (degrees d + 7.5) / 15"
  by (simp add: snapAngle_def degrees_def field_simps)

lemma degrees_steps: "degrees (of_int k * snapAngle) = 15 * of_int k"
  by (simp add: snapAngle_def degrees_def)

lemma six_steps:
  assumes "85 \<le> (x::real)" and "x \<le> 95"
  shows "\<lfloor>(x + 7.5) / 15\<rfloor> = 6"
  using assms by (intro floor_unique) simp_all

text \<open>
  Claim C4, as amended. With the snap modifier held, the gesture takes the difference
  \<open>d\<close> of the \<open>atan2\<close> angles of the directions current point to pivot and press point
  to pivot, and quantizes it to \<open>k\<close> steps of \<open>snap = 15 pi / 180\<close>, where \<open>k\<close> is
  \<open>floor ((d + snap / 2) / snap)\<close>, that is \<open>floor ((d + 7.5) / 15)\<close> with \<open>d\<close> in
  degrees. The rotation of every object becomes its pre-gesture rotation plus
  \<open>k * snap * 180 / pi\<close>. In exact arithmetic that is \<open>15 k\<close> degrees; when \<open>d\<close> is
  between 85 and 95 degrees, as for 92, \<open>k\<close> is 6 and the rotation changes by 90. The
  difference \<open>d\<close> is the signed angle from the direction pivot to press point to the
  direction pivot to current point, or that angle plus or minus a full turn. In doubles
  the conversion of six steps to degrees gives exactly 90, and that of one step gives
  \<open>15 - 2 ^ - 49\<close>, which prints as 14.999999999999998.
\<close>

theorem rotate_snap:
  assumes ctrl: "controlModifier m"
    and dist: "distinct (map item (mMovingObjects s))"
  shows "let d = codeAngle (mOrigin s) (mStart s) p;
             k = \<lfloor>(d + snapAngle / 2) / snapAngle\<rfloor>
         in (\<forall>ob \<in> set (mMovingObjects s).
               rotation (mapObject (items (updateRotatingItems env p m s) (item ob))) =
                 oldRotation ob + degrees (of_int k * snapAngle)) \<and>
            k = \<lfloor>(degrees d + 7.5) / 15\<rfloor> \<and>
            degrees (of_int k * snapAngle) = 15 * of_int k \<and>
            (85 \<le> degrees d \<and> degrees d \<le> 95 \<longrightarrow>
               k = 6 \<and> degrees (of_int k * snapAngle) = 90) \<and>
            (mStart s \<noteq> mOrigin s \<and> p \<noteq> mOrigin s \<longrightarrow>
               d = signedAngle (mOrigin s) (mStart s) p \<or>
               d = signedAngle (mOrigin s) (mStart s) p + 2 * pi \<or>
               d = signedAngle (mOrigin s) (mStart s) p - 2 * pi) \<and>
            snappedDegreesDouble 6 = 90 \<and>
            snappedDegreesDouble 1 = 15 - 1 / 2 ^ 49"
proof -
  let ?d = "codeAngle (mOrigin s) (mStart s) p"
  let ?k = "\<lfloor>(?d + snapAngle / 2) / snapAngle\<rfloor>"
  have each: "rotation (mapObject (items (updateRotatingItems env p m s) (item ob))) =
      oldRotation ob + degrees (of_int ?k * snapAngle)"
    if "ob \<in> set (mMovingObjects s)" for ob
    unfolding updateRotatingItems_each [OF dist that] rotated_rotation
      rotationAngleDiff_snap [OF ctrl] ..
  have k: "?k = \<lfloor>(degrees ?d + 7.5) / 15\<rfloor>"
    unfolding snap_quotient ..
  have six: "?k = 6 \<and> degrees (of_int ?k * snapAngle) = 90"
    if "85 \<le> degrees ?d" and "degrees ?d \<le> 95"
    unfolding degrees_steps k using six_steps [OF that] by simp
  have turn: "?d = signedAngle (mOrigin s) (mStart s) p \<or>
      ?d = signedAngle (mOrigin s) (mStart s) p + 2 * pi \<or>
      ?d = signedAngle (mOrigin s) (mStart s) p - 2 * pi"
    if "mStart s \<noteq> mOrigin s" and "p \<noteq> mOrigin s"
    by (rule codeAngle_signedAngle [OF that])
  show ?thesis
    unfolding Let_def
    using each k degrees_steps [of ?k] six turn snappedDegreesDouble_six snappedDegreesDouble_one
    by blast
qed

theorem rotate_snap_witness:
  "rotation (mapObject
     (items (updateRotatingItems exampleEnv (7, - 200) controlOnly (rotateTool (- 1, 0))) 2)) = 90 \<and>
   90 < degrees (codeAngle (0, 0) (- 1, 0) (7, - 200)) \<and>
   degrees (codeAngle (0, 0) (- 1, 0) (7, - 200)) < 94.5"
proof -
  let ?a = "arctan (7 / 200)"
  have c: "controlModifier controlOnly"
    by (simp add: controlOnly_def)
  have d: "distinct (map item (mMovingObjects (rotateTool (- 1, 0))))"
    and m: "\<lparr>item = 2, oldItemPosition = (20, 20), oldPosition = (20, 20), oldSize = (10, 10),
       oldPolygon = [], oldRotation = 0\<rparr> \<in> set (mMovingObjects (rotateTool (- 1, 0)))"
    by (simp_all add: rotateTool_fields)
  have code: "codeAngle (0, 0) (- 1, 0) (7, - 200) = pi / 2 + ?a"
    using arctan_steep by (simp add: codeAngle_def psub_def atan2_def arctan_minus)
  have deg: "degrees (codeAngle (0, 0) (- 1, 0) (7, - 200)) = 90 + degrees ?a"
    unfolding code by (simp add: degrees_def field_simps)
  have small: "0 < degrees ?a" "degrees ?a < 4.5"
    using arctan_small pi_gt_zero by (simp_all add: degrees_def field_simps)
  have range: "85 \<le> degrees (codeAngle (0, 0) (- 1, 0) (7, - 200))"
    "degrees (codeAngle (0, 0) (- 1, 0) (7, - 200)) \<le> 95"
    unfolding deg using small by simp_all
  from rotate_snap [OF c d, of "(7, - 200)" exampleEnv] m range
  have "rotation (mapObject
     (items (updateRotatingItems exampleEnv (7, - 200) controlOnly (rotateTool (- 1, 0))) 2)) = 90"
    by (auto simp add: Let_def rotateTool_fields)
  then show ?thesis
    unfolding deg using small by simp
qed

section \<open>Resizing a turned object without extent\<close>

lemma quarter_turns:
  "mapPoint (rotateAt c 90) q = (fst c - (snd q - snd c), snd c + (fst q - fst c))"
  "mapPoint (rotateAt c (- 90)) q = (fst c + (snd q - snd c), snd c - (fst q - fst c))"
  by (simp_all add: rotateAt_def padd_def psub_def rotatePoint_def)

lemma turnedPointResizeTool_fields:
  "mMovingObjects turnedPointResizeTool =
     [\<lparr>item = 3, oldItemPosition = (10, 10), oldPosition = (10, 10), oldSize = (0, 0),
       oldPolygon = [], oldRotation = 90\<rparr>]"
  "mClickedResizeHandle turnedPointResizeTool = Some BottomRightAnchor"
  "resizingOrigin (mResizeHandles turnedPointResizeTool a) = (10, 10)"
  "mStart turnedPointResizeTool = (10, 10)"
  "items turnedPointResizeTool 3 = setObjectRotation 90 (exampleItem (10, 10) (0, 0) Center)"
  by (simp_all add: turnedPointResizeTool_def pointResizeTool_def initialTool_def)

text \<open>
  The object turned by 90 degrees: the cursor at \<open>(0, 30)\<close> is 20 right and 10 down from
  the pivot once the rotation is taken back, the point \<open>Q\<close> is \<open>(20, 15)\<close>, and the new
  position is \<open>Q\<close> rotated about \<open>(10, 10)\<close>, which is \<open>(5, 20)\<close>.
\<close>

lemma resize_zero_size_turned:
  "mapPoint (rotateAt (10, 10) (- 90)) (0, 30) = padd (10, 10) (20, 10) \<and>
   map_option (sizeF \<circ> mapObject)
     (itemAfter (updateResizingItems exampleEnv (0, 30) noModifier turnedPointResizeTool) 3)
     = Some (20, 10) \<and>
   map_option (position \<circ> mapObject)
     (itemAfter (updateResizingItems exampleEnv (0, 30) noModifier turnedPointResizeTool) 3)
     = Some (5, 20)"
proof -
  have geo: "singleItemGeometry exampleEnv
       (turnedPointResizeTool\<lparr>originIndicatorPos := (10, 10)\<rparr>) BottomRightAnchor
       \<lparr>item = 3, oldItemPosition = (10, 10), oldPosition = (10, 10), oldSize = (0, 0),
         oldPolygon = [], oldRotation = 90\<rparr> (10, 10) (0, 30) noModifier =
     Inr ((20, 15), (20, 10), None)"
    by (simp add: singleItemGeometry_def Let_def turnedPointResizeTool_fields exampleItem_def
        exampleObject_def setObjectRotation_def resizeInPixelSpace_def usesDirectBounds_def
        noModifier_fields exampleEnv_fields quarter_turns directBounds_def align_def
        unalign_def mkRect_def translate_def pneg_def dragHorizontal_def dragVertical_def
        setRight_def setBottom_def qMax_def topLeft_def rsize_def)
  show ?thesis
    by (simp add: updateResizingItems_def updateResizingSingleItem_def Let_def itemAfter_def
        turnedPointResizeTool_fields resizeOrigin_def exampleEnv_fields geo noModifier_fields
        exampleItem_def exampleObject_def setObjectRotation_def resizeInPixelSpace_def
        quarter_turns setPosition_def setPos_def resizeObject_def padd_def)
qed

end
